theory Spec2Isabelle
  imports Complex_Main
begin

section \<open>Python values, errors and numpy arrays\<close>

text \<open>
  The embedding follows \<^verbatim>\<open>financepy/market/curves/FinZeroCurve.py\<close>. Python floats are
  idealised as real numbers: rounding and overflow are outside the model. The curve's
  arrays hold real numbers. Where the constructor computes a discount factor with
  \<^verbatim>\<open>np.power\<close>, the result can be \<^verbatim>\<open>inf\<close> or \<^verbatim>\<open>nan\<close>; that computation is modelled with
  these two values, and the statements about stored values are made for finite ones. Every
  exception the source can raise is a value: a function that can raise returns
  \<open>error + result\<close>.
\<close>

text \<open>
  Modelled from the spec: the class \<^verbatim>\<open>FinDate\<close> is not part of the sources at hand; the
  spec asks of the date collaborator a subtraction that yields a day count and an
  ordering. A date is its serial day number.
\<close>

datatype FinDate = FinDate int

fun date_sub :: "FinDate \<Rightarrow> FinDate \<Rightarrow> real" where
  "date_sub (FinDate a) (FinDate b) = real_of_int (a - b)"

fun date_less :: "FinDate \<Rightarrow> FinDate \<Rightarrow> bool" where
  "date_less (FinDate a) (FinDate b) = (a < b)"

text \<open>
  The time component of a quote, and the argument of a query, is any Python value. The
  constructor inspects its class at run time, so the classes that matter are kept apart:
  \<^verbatim>\<open>float\<close>, \<^verbatim>\<open>int\<close>, \<^verbatim>\<open>FinDate\<close> and, for a value that is neither a number nor a
  date, \<^verbatim>\<open>None\<close>.
\<close>

datatype pyval = PyFloat real | PyInt int | PyDate FinDate | PyNone

text \<open>
  \<^verbatim>\<open>FinError\<close> and \<^verbatim>\<open>ValueError\<close> carry the message of the \<^verbatim>\<open>raise\<close> statement. The other
  three are raised by Python itself: a float division by zero, an operation between
  values of classes that do not support it (Python's \<^verbatim>\<open>TypeError\<close> or \<^verbatim>\<open>AttributeError\<close>),
  and an index out of range.
\<close>

datatype error = FinError string | ValueError string | ZeroDivisionError | TypeError | IndexError

text \<open>
  An argument that the source tests with \<^verbatim>\<open>x not in SomeEnum\<close> is either a member of
  that enumeration or some other value.
\<close>

datatype 'a enum_arg = Member 'a | NonMember

text \<open>
  The messages of the seven \<^verbatim>\<open>raise FinError(...)\<close> statements of the constructor, under
  the names the spec gives to the failures. For the two unknown-selector failures the
  source appends \<^verbatim>\<open>str(...)\<close> of the offending argument, which is left out.
\<close>

definition EmptyInput :: error where
  "EmptyInput = FinError ''Times has zero length''"

definition LengthMismatch :: error where
  "LengthMismatch = FinError ''Times and Values are not the same''"

definition UnknownFrequency :: error where
  "UnknownFrequency = FinError ''Unknown Frequency type ''"

definition UnknownDayCount :: error where
  "UnknownDayCount = FinError ''Unknown Cap Floor DayCountRule type ''"

definition NegativeTime :: error where
  "NegativeTime = FinError ''Times must be > 0.''"

definition UnsupportedInputType :: error where
  "UnsupportedInputType = FinError ''Input timeOrDates must be list of times or dates''"

definition NotMonotonic :: error where
  "NotMonotonic = FinError ''Times or dates are not sorted in increasing order''"

text \<open>
  numpy arrays are mutable objects. They live in a store, the list of all arrays
  allocated so far, and a reference is the position of an array in it. \<^verbatim>\<open>np.array(xs)\<close> and
  \<^verbatim>\<open>a.copy()\<close> allocate a new array at the end of the store; \<^verbatim>\<open>a[i] = v\<close> replaces an
  array in place.
\<close>

type_synonym ref = nat
type_synonym heap = "real list list"

definition np_array :: "real list \<Rightarrow> heap \<Rightarrow> ref \<times> heap" where
  "np_array xs h = (length h, h @ [xs])"

definition np_copy :: "ref \<Rightarrow> heap \<Rightarrow> ref \<times> heap" where
  "np_copy p h = np_array (h ! p) h"

definition np_setitem :: "ref \<Rightarrow> nat \<Rightarrow> real \<Rightarrow> heap \<Rightarrow> heap" where
  "np_setitem p i v h = h[p := (h ! p)[i := v]]"

text \<open>
  A numpy float that a computation returns: a real number, \<^verbatim>\<open>inf\<close> or \<^verbatim>\<open>nan\<close>.
\<close>

datatype npfloat = Finite real | Infinity | NaN

text \<open>
  \<^verbatim>\<open>np.power(x, y)\<close> on floats. A positive base has the real power. A zero base gives
  \<open>0\<close> for a positive exponent, \<open>1\<close> for the exponent \<open>0\<close> and \<^verbatim>\<open>inf\<close> for a negative one.
  A negative base gives the signed integer power when the exponent is a whole number and
  \<^verbatim>\<open>nan\<close> otherwise.
\<close>

definition np_power :: "real \<Rightarrow> real \<Rightarrow> npfloat" where
  "np_power x y =
     (if 0 < x then Finite (x powr y)
      else if x = 0 then (if 0 < y then Finite 0 else if y = 0 then Finite 1 else Infinity)
      else if y = real_of_int \<lfloor>y\<rfloor> then Finite (x powi \<lfloor>y\<rfloor>)
      else NaN)"

text \<open>
  \<^verbatim>\<open>1.0 / p\<close> for a numpy float \<open>p\<close>: a numpy division, which does not raise. It gives
  \<^verbatim>\<open>inf\<close> for \<open>p = 0\<close>, \<open>0\<close> for \<^verbatim>\<open>inf\<close> and \<^verbatim>\<open>nan\<close> for \<^verbatim>\<open>nan\<close>.
\<close>

definition np_reciprocal :: "npfloat \<Rightarrow> npfloat" where
  "np_reciprocal p =
     (case p of
        Finite v \<Rightarrow> if v = 0 then Infinity else Finite (1 / v)
      | Infinity \<Rightarrow> Finite 0
      | NaN \<Rightarrow> NaN)"

text \<open>
  The real number that a finite float stands for. The arrays of this model hold real
  numbers, so \<^verbatim>\<open>inf\<close> and \<^verbatim>\<open>nan\<close>, which the source would append to \<^verbatim>\<open>values\<close> as they are,
  have no counterpart in them: such an entry is left unspecified, and every statement on a
  stored discount factor is made for a finite one.
\<close>

primrec stored_value :: "npfloat \<Rightarrow> real" where
  "stored_value (Finite v) = v"

section \<open>The curve objects and the external collaborators\<close>

text \<open>
  The attributes \<^verbatim>\<open>_curveDate\<close>, \<^verbatim>\<open>_times\<close>, \<^verbatim>\<open>_values\<close>, \<^verbatim>\<open>_dayCountType\<close>,
  \<^verbatim>\<open>_frequencyType\<close> and \<^verbatim>\<open>_interpMethod\<close> of a \<^verbatim>\<open>FinZeroCurve\<close>. The two arrays are
  held by reference. The enumerations of frequencies, day counts and interpolation
  methods are not part of the sources at hand and stay type parameters.
\<close>

record ('f, 'd, 'm) FinZeroCurve =
  zc_curveDate :: FinDate
  zc_times :: ref
  zc_values :: ref
  zc_dayCountType :: 'd
  zc_frequencyType :: 'f
  zc_interpMethod :: 'm

text \<open>
  Modelled from the spec: the class \<^verbatim>\<open>FinDiscountCurve\<close> is not part of the sources at
  hand. Its constructor is called with an anchor date, two arrays and an interpolation
  method, which the new curve retains according to the spec.
\<close>

record 'm FinDiscountCurve =
  dc_curveDate :: FinDate
  dc_times :: ref
  dc_values :: ref
  dc_interpMethod :: 'm

text \<open>
  The functions and the constant that \<^verbatim>\<open>FinZeroCurve.py\<close> imports from other modules:
  \<^verbatim>\<open>FinFrequency\<close> (periods per year of a frequency type, \<open>-1\<close> for continuous
  compounding), \<^verbatim>\<open>FinDayCount(type).yearFrac(d1, d2)\<close>, \<^verbatim>\<open>gDaysInYear\<close>,
  \<^verbatim>\<open>interpolate(t, times, values, method)\<close>, \<^verbatim>\<open>inputTime(dt, curve)\<close> and
  \<^verbatim>\<open>inputFrequency(f)\<close>. They are parameters of the model. The two input helpers may
  reject their argument, which they do by raising \<^verbatim>\<open>FinError\<close> with some message.
\<close>

record ('f, 'd, 'm) collaborators =
  FinFrequency :: "'f \<Rightarrow> real"
  yearFrac :: "'d \<Rightarrow> FinDate \<Rightarrow> FinDate \<Rightarrow> real"
  gDaysInYear :: real
  interpolate :: "real \<Rightarrow> real list \<Rightarrow> real list \<Rightarrow> 'm \<Rightarrow> real"
  inputTime :: "pyval \<Rightarrow> ('f, 'd, 'm) FinZeroCurve \<Rightarrow> string + real"
  inputFrequency :: "int \<Rightarrow> string + real"

text \<open>
  Modelled from the spec: \<^verbatim>\<open>testMonotonicity\<close> (module \<^verbatim>\<open>FinMath\<close>) is not part of the
  sources at hand. By the spec the constructor fails when the resolved time sequence is
  not non-decreasing.
\<close>

definition testMonotonicity :: "real list \<Rightarrow> bool" where
  "testMonotonicity ts = sorted ts"

section \<open>Construction\<close>

text \<open>
  \<^verbatim>\<open>isinstance(x, float)\<close> and \<^verbatim>\<open>isinstance(x, FinDate)\<close>, and the number that a float
  or an int stands for in arithmetic.
\<close>

fun isinstance_float :: "pyval \<Rightarrow> bool" where
  "isinstance_float (PyFloat t) = True"
| "isinstance_float (PyInt n) = False"
| "isinstance_float (PyDate d) = False"
| "isinstance_float PyNone = False"

fun isinstance_FinDate :: "pyval \<Rightarrow> bool" where
  "isinstance_FinDate (PyFloat t) = False"
| "isinstance_FinDate (PyInt n) = False"
| "isinstance_FinDate (PyDate d) = True"
| "isinstance_FinDate PyNone = False"

fun as_number :: "pyval \<Rightarrow> real option" where
  "as_number (PyFloat t) = Some t"
| "as_number (PyInt n) = Some (real_of_int n)"
| "as_number (PyDate d) = None"
| "as_number PyNone = None"

text \<open>
  The body of the loop of the float branch (source lines 63 to 75) for one quote: the
  time \<open>x\<close> as provided and its rate \<open>r\<close>. A float or an int is compared with \<open>0.0\<close> and
  multiplied as a number; any other value makes the comparison fail. The division
  \<^verbatim>\<open>r/freq\<close> is Python's, which raises on a zero divisor. The periodic discount factor is
  \<^verbatim>\<open>1.0 / np.power(1.0 + r/freq, freq * t)\<close>.
\<close>

definition float_quote :: "real \<Rightarrow> pyval \<Rightarrow> real \<Rightarrow> error + real \<times> real" where
  "float_quote freq x r =
     (case as_number x of
        None \<Rightarrow> Inl TypeError
      | Some t \<Rightarrow>
          if t < 0 then Inl NegativeTime
          else if freq = -1 then Inr (t, exp (- r * t))
          else if freq = 0 then Inl ZeroDivisionError
          else Inr (t, stored_value (np_reciprocal (np_power (1 + r / freq) (freq * t)))))"

text \<open>
  The body of the loop of the date branch (source lines 84 to 97). Subtracting the
  curve date from a value that is not a date fails.
\<close>

definition date_quote ::
  "('f, 'd, 'm) collaborators \<Rightarrow> FinDate \<Rightarrow> 'd \<Rightarrow> real \<Rightarrow> pyval \<Rightarrow> real \<Rightarrow> error + real \<times> real"
where
  "date_quote E curveDate dayCountType freq x r =
     (case x of
        PyDate d \<Rightarrow>
          if gDaysInYear E = 0 then Inl ZeroDivisionError
          else
            let t = date_sub d curveDate / gDaysInYear E in
            if t < 0 then Inl NegativeTime
            else
              let alpha = yearFrac E dayCountType curveDate d in
              if freq = -1 then Inr (t, exp (- r * t))
              else if freq = 0 then Inl ZeroDivisionError
              else
                Inr (t, stored_value (np_reciprocal (np_power (1 + r / freq) (freq * alpha))))
      | _ \<Rightarrow> Inl TypeError)"

text \<open>
  The \<^verbatim>\<open>for\<close> loop over the quotes: the lists \<^verbatim>\<open>times\<close> and \<^verbatim>\<open>values\<close> grow by one entry
  for each quote, and the first quote that raises ends the construction.
\<close>

fun quote_loop ::
  "(pyval \<Rightarrow> real \<Rightarrow> error + real \<times> real) \<Rightarrow> (pyval \<times> real) list \<Rightarrow>
     real list \<Rightarrow> real list \<Rightarrow> error + real list \<times> real list"
where
  "quote_loop body [] ts vs = Inr (ts, vs)"
| "quote_loop body ((x, r) # qs) ts vs =
     (case body x r of
        Inl e \<Rightarrow> Inl e
      | Inr (t, v) \<Rightarrow> quote_loop body qs (ts @ [t]) (vs @ [v]))"

text \<open>
  \<^verbatim>\<open>FinZeroCurve.__init__\<close>, in the store \<open>h\<close>. The checks come in the order of the
  source. The branch is chosen by the class of the first time only.
\<close>

definition FinZeroCurve_init ::
  "('f, 'd, 'm) collaborators \<Rightarrow> heap \<Rightarrow> FinDate \<Rightarrow> pyval list \<Rightarrow> real list \<Rightarrow>
     'f enum_arg \<Rightarrow> 'd enum_arg \<Rightarrow> 'm \<Rightarrow> error + ('f, 'd, 'm) FinZeroCurve \<times> heap"
where
  "FinZeroCurve_init E h curveDate timesOrDates zeroRates frequencyType dayCountType interpMethod =
     (if length timesOrDates = 0 then Inl EmptyInput
      else if length timesOrDates \<noteq> length zeroRates then Inl LengthMismatch
      else
        case frequencyType of
          NonMember \<Rightarrow> Inl UnknownFrequency
        | Member ft \<Rightarrow>
           (case dayCountType of
              NonMember \<Rightarrow> Inl UnknownDayCount
            | Member dct \<Rightarrow>
               (let freq = FinFrequency E ft in
                case
                  (if isinstance_float (timesOrDates ! 0) then
                     quote_loop (float_quote freq) (zip timesOrDates zeroRates) [] []
                   else if isinstance_FinDate (timesOrDates ! 0) then
                     quote_loop (date_quote E curveDate dct freq)
                       (zip timesOrDates zeroRates) [] []
                   else Inl UnsupportedInputType)
                of
                  Inl e \<Rightarrow> Inl e
                | Inr (ts, vs) \<Rightarrow>
                    (case np_array ts h of
                       (tp, h1) \<Rightarrow>
                         if \<not> testMonotonicity (h1 ! tp) then Inl NotMonotonic
                         else
                           (case np_array vs h1 of
                              (vp, h2) \<Rightarrow>
                                Inr (\<lparr>zc_curveDate = curveDate, zc_times = tp, zc_values = vp,
                                      zc_dayCountType = dct, zc_frequencyType = ft,
                                      zc_interpMethod = interpMethod\<rparr>, h2))))))"

section \<open>Queries\<close>

text \<open>
  \<^verbatim>\<open>df\<close> and \<^verbatim>\<open>survProb\<close> (source lines 132 to 142): the time is resolved by
  \<^verbatim>\<open>inputTime\<close> and the stored arrays are handed to \<^verbatim>\<open>interpolate\<close>.
\<close>

definition df ::
  "('f, 'd, 'm) collaborators \<Rightarrow> heap \<Rightarrow> ('f, 'd, 'm) FinZeroCurve \<Rightarrow> pyval \<Rightarrow> error + real"
where
  "df E h self dt =
     (case inputTime E dt self of
        Inl msg \<Rightarrow> Inl (FinError msg)
      | Inr t \<Rightarrow>
          let z = interpolate E t (h ! zc_times self) (h ! zc_values self) (zc_interpMethod self)
          in Inr z)"

definition survProb ::
  "('f, 'd, 'm) collaborators \<Rightarrow> heap \<Rightarrow> ('f, 'd, 'm) FinZeroCurve \<Rightarrow> pyval \<Rightarrow> error + real"
where
  "survProb E h self dt =
     (case inputTime E dt self of
        Inl msg \<Rightarrow> Inl (FinError msg)
      | Inr t \<Rightarrow>
          let q = interpolate E t (h ! zc_times self) (h ! zc_values self) (zc_interpMethod self)
          in Inr q)"

text \<open>
  Python's float division, which raises \<^verbatim>\<open>ZeroDivisionError\<close> on a zero divisor, and
  Python's float power \<^verbatim>\<open>x ** y\<close>, which raises it for \<open>0.0\<close> to a negative power.
\<close>

definition py_div :: "real \<Rightarrow> real \<Rightarrow> error + real" where
  "py_div a b = (if b = 0 then Inl ZeroDivisionError else Inr (a / b))"

definition py_pow :: "real \<Rightarrow> real \<Rightarrow> error + real" where
  "py_pow x y = (if x = 0 \<and> y < 0 then Inl ZeroDivisionError else Inr (x powr y))"

text \<open>
  The three statements that follow \<^verbatim>\<open>df = self.df(t)\<close> in \<^verbatim>\<open>zeroRate\<close> (source lines 122
  to 128). The first \<^verbatim>\<open>if\<close> is a statement of its own: when it raises nothing, control
  goes on to the second \<^verbatim>\<open>if\<close>, whose \<^verbatim>\<open>else\<close> branch runs for every \<open>f\<close> other than
  \<open>-1\<close> and assigns \<^verbatim>\<open>zeroRate\<close> again. The discount factor, the time and the frequency
  are Python numbers, so the divisions of the first and the third branch raise on a zero
  divisor; \<^verbatim>\<open>np.log(df)/t\<close> is a numpy division and does not raise. A discount factor
  that is not positive is outside what the real logarithm and power stand for.
\<close>

definition zeroRate_simple :: "real \<Rightarrow> real \<Rightarrow> error + real" where
  "zeroRate_simple d t =
     (case py_div 1 d of
        Inl e \<Rightarrow> Inl e
      | Inr q \<Rightarrow> py_div (q - 1) t)"

definition zeroRate_periodic :: "real \<Rightarrow> real \<Rightarrow> real \<Rightarrow> error + real" where
  "zeroRate_periodic d t f =
     (case py_div (- 1) t of
        Inl e \<Rightarrow> Inl e
      | Inr a \<Rightarrow>
         (case py_div a f of
            Inl e \<Rightarrow> Inl e
          | Inr b \<Rightarrow>
             (case py_pow d b of
                Inl e \<Rightarrow> Inl e
              | Inr p \<Rightarrow> Inr ((p - 1) * f))))"

definition zeroRate_branches :: "real \<Rightarrow> real \<Rightarrow> real \<Rightarrow> error + real" where
  "zeroRate_branches d t f =
     (case (if f = 0 then zeroRate_simple d t else Inr 0) of
        Inl e \<Rightarrow> Inl e
      | Inr _ \<Rightarrow>
          if f = -1 then Inr (- ln d / t)
          else zeroRate_periodic d t f)"

definition zeroRate ::
  "('f, 'd, 'm) collaborators \<Rightarrow> heap \<Rightarrow> ('f, 'd, 'm) FinZeroCurve \<Rightarrow> pyval \<Rightarrow> int \<Rightarrow> error + real"
where
  "zeroRate E h self dt compoundingFreq =
     (case inputTime E dt self of
        Inl msg \<Rightarrow> Inl (FinError msg)
      | Inr t \<Rightarrow>
         (case inputFrequency E compoundingFreq of
            Inl msg \<Rightarrow> Inl (FinError msg)
          | Inr f \<Rightarrow>
             (case df E h self (PyFloat t) of
                Inl e \<Rightarrow> Inl e
              | Inr d \<Rightarrow> zeroRate_branches d t f)))"

text \<open>
  \<^verbatim>\<open>fwdRate\<close> (source lines 175 to 190). The two date checks raise \<^verbatim>\<open>ValueError\<close>; the
  year fraction is computed before the two discount factors.
\<close>

definition fwdRate ::
  "('f, 'd, 'm) collaborators \<Rightarrow> heap \<Rightarrow> ('f, 'd, 'm) FinZeroCurve \<Rightarrow> FinDate \<Rightarrow> FinDate \<Rightarrow> 'd \<Rightarrow>
     error + real"
where
  "fwdRate E h self date1 date2 dayCountType =
     (if date_less date1 (zc_curveDate self) then
        Inl (ValueError ''Date1 before curve value date.'')
      else if date_less date2 date1 then
        Inl (ValueError ''Date2 must not be before Date1'')
      else
        let yf = yearFrac E dayCountType date1 date2 in
        case df E h self (PyDate date1) of
          Inl e \<Rightarrow> Inl e
        | Inr df1 \<Rightarrow>
           (case df E h self (PyDate date2) of
              Inl e \<Rightarrow> Inl e
            | Inr df2 \<Rightarrow>
               (case py_div df1 df2 of
                  Inl e \<Rightarrow> Inl e
                | Inr q \<Rightarrow> py_div (q - 1) yf)))"

section \<open>Bump\<close>

text \<open>
  The object a method returns is an instance of one class or of the other.
\<close>

datatype ('f, 'd, 'm) curve_object =
  ZeroCurveObject "('f, 'd, 'm) FinZeroCurve"
| DiscountCurveObject "'m FinDiscountCurve"

text \<open>
  The loop of \<^verbatim>\<open>bump\<close> (source lines 164 to 166) over the indices \<open>is\<close>, on the copies at
  \<open>tp\<close> and \<open>vp\<close>: each round reads \<^verbatim>\<open>times[i]\<close> and \<^verbatim>\<open>values[i]\<close> and writes \<^verbatim>\<open>values[i]\<close>
  in place. An index outside an array raises \<^verbatim>\<open>IndexError\<close>.
\<close>

fun bump_loop :: "real \<Rightarrow> ref \<Rightarrow> ref \<Rightarrow> nat list \<Rightarrow> heap \<Rightarrow> error + heap" where
  "bump_loop bumpSize tp vp [] h = Inr h"
| "bump_loop bumpSize tp vp (i # is) h =
     (if i < length (h ! tp) \<and> i < length (h ! vp) then
        let t = h ! tp ! i in
        bump_loop bumpSize tp vp is (np_setitem vp i (h ! vp ! i * exp (- bumpSize * t)) h)
      else Inl IndexError)"

text \<open>
  \<^verbatim>\<open>bump\<close> (source lines 157 to 171): both arrays are copied, the copy of the values is
  updated in place, and \<^verbatim>\<open>FinDiscountCurve\<close> is called with the anchor date, the two
  copies and the interpolation method.
\<close>

definition bump ::
  "heap \<Rightarrow> ('f, 'd, 'm) FinZeroCurve \<Rightarrow> real \<Rightarrow> error + ('f, 'd, 'm) curve_object \<times> heap"
where
  "bump h self bumpSize =
     (case np_copy (zc_times self) h of
        (tp, h1) \<Rightarrow>
         (case np_copy (zc_values self) h1 of
            (vp, h2) \<Rightarrow>
              let n = length (h2 ! zc_times self) in
              (case bump_loop bumpSize tp vp [0..<n] h2 of
                 Inl e \<Rightarrow> Inl e
               | Inr h3 \<Rightarrow>
                   Inr (DiscountCurveObject
                          \<lparr>dc_curveDate = zc_curveDate self, dc_times = tp, dc_values = vp,
                           dc_interpMethod = zc_interpMethod self\<rparr>, h3))))"

section \<open>Conditions and invariants used in the statements\<close>

text \<open>
  The year offset that a time component resolves to: a number is its own offset, a date
  is \<^verbatim>\<open>(date - curveDate) / gDaysInYear\<close> days from the curve date.
\<close>

definition resolved_offset :: "('f, 'd, 'm) collaborators \<Rightarrow> FinDate \<Rightarrow> pyval \<Rightarrow> real option" where
  "resolved_offset E curveDate x =
     (case x of
        PyFloat t \<Rightarrow> Some t
      | PyInt n \<Rightarrow> Some (real_of_int n)
      | PyDate d \<Rightarrow> Some (date_sub d curveDate / gDaysInYear E)
      | PyNone \<Rightarrow> None)"

text \<open>Whether a time component resolves to a negative offset.\<close>

definition negative_offset :: "('f, 'd, 'm) collaborators \<Rightarrow> FinDate \<Rightarrow> pyval \<Rightarrow> bool" where
  "negative_offset E curveDate x =
     (case resolved_offset E curveDate x of
        Some t \<Rightarrow> t < 0
      | None \<Rightarrow> False)"

text \<open>
  The seven conditions that the spec names for a failing construction: no quotes, times
  and rates of different lengths, an unknown frequency, an unknown day count, a negative
  resolved offset, a first time that is neither a float nor a date, and resolved times
  that are not non-decreasing.
\<close>

definition named_failure_condition ::
  "('f, 'd, 'm) collaborators \<Rightarrow> FinDate \<Rightarrow> pyval list \<Rightarrow> real list \<Rightarrow>
     'f enum_arg \<Rightarrow> 'd enum_arg \<Rightarrow> bool"
where
  "named_failure_condition E curveDate timesOrDates zeroRates frequencyType dayCountType =
     (timesOrDates = []
      \<or> length timesOrDates \<noteq> length zeroRates
      \<or> frequencyType = NonMember
      \<or> dayCountType = NonMember
      \<or> (\<exists>x \<in> set timesOrDates. negative_offset E curveDate x)
      \<or> (case timesOrDates of
            [] \<Rightarrow> False
          | x # xs \<Rightarrow> \<not> isinstance_float x \<and> \<not> isinstance_FinDate x)
      \<or> \<not> sorted (List.map_filter (resolved_offset E curveDate) timesOrDates))"

text \<open>
  A quote list is uniform when every time is of the kind the first one selects: numbers
  after a float, dates after a date.
\<close>

definition uniform_quotes :: "pyval list \<Rightarrow> bool" where
  "uniform_quotes timesOrDates =
     (case timesOrDates of
        [] \<Rightarrow> True
      | x # xs \<Rightarrow>
          if isinstance_float x then list_all (\<lambda>y. as_number y \<noteq> None) timesOrDates
          else if isinstance_FinDate x then list_all isinstance_FinDate timesOrDates
          else True)"

text \<open>
  What every curve built by the constructor satisfies in the store it is built in, and
  keeps while its two arrays are not written to: both references are allocated and the
  two arrays have the same length.
\<close>

definition valid_curve :: "heap \<Rightarrow> ('f, 'd, 'm) FinZeroCurve \<Rightarrow> bool" where
  "valid_curve h self =
     (zc_times self < length h \<and> zc_values self < length h
      \<and> length (h ! zc_times self) = length (h ! zc_values self))"

text \<open>
  Whether a call returned an instance of \<^verbatim>\<open>FinZeroCurve\<close>.
\<close>

definition returns_FinZeroCurve :: "error + ('f, 'd, 'm) curve_object \<times> heap \<Rightarrow> bool" where
  "returns_FinZeroCurve res =
     (case res of
        Inr (ZeroCurveObject z, h) \<Rightarrow> True
      | _ \<Rightarrow> False)"

section \<open>Example collaborators\<close>

text \<open>
  Modelled from the spec: the enumerations and helper functions below stand in for the
  modules that are not part of the sources at hand, so that the model can be run on
  concrete inputs. The frequency enumeration is closed and maps to periods per year, with
  \<open>-1\<close> for continuous and \<open>0\<close> for simple compounding; a day count turns two dates
  into a year fraction; time resolution maps a float to itself and a date to its offset
  from the curve date; the interpolation returns the stored value at a grid node.
\<close>

datatype FinFrequencyTypes = CONTINUOUS | SIMPLE | ANNUAL | SEMI_ANNUAL | QUARTERLY | MONTHLY

fun periods_per_year :: "FinFrequencyTypes \<Rightarrow> real" where
  "periods_per_year CONTINUOUS = -1"
| "periods_per_year SIMPLE = 0"
| "periods_per_year ANNUAL = 1"
| "periods_per_year SEMI_ANNUAL = 2"
| "periods_per_year QUARTERLY = 4"
| "periods_per_year MONTHLY = 12"

datatype FinDayCountTypes = ACT_360 | ACT_365F

fun year_fraction :: "FinDayCountTypes \<Rightarrow> FinDate \<Rightarrow> FinDate \<Rightarrow> real" where
  "year_fraction ACT_360 d1 d2 = date_sub d2 d1 / 360"
| "year_fraction ACT_365F d1 d2 = date_sub d2 d1 / 365"

datatype FinInterpMethods = FLAT_FORWARDS

fun node_value :: "real \<Rightarrow> real list \<Rightarrow> real list \<Rightarrow> real" where
  "node_value t (x # xs) (v # vs) = (if t = x then v else node_value t xs vs)"
| "node_value t xs vs = 1"

definition resolve_time :: "pyval \<Rightarrow> ('f, 'd, 'm) FinZeroCurve \<Rightarrow> string + real" where
  "resolve_time dt curve =
     (case dt of
        PyFloat t \<Rightarrow> if t < 0 then Inl ''time before curve date'' else Inr t
      | PyDate d \<Rightarrow>
          let t = date_sub d (zc_curveDate curve) / 365
          in if t < 0 then Inl ''date before curve date'' else Inr t
      | _ \<Rightarrow> Inl ''unknown time type'')"

definition resolve_frequency :: "int \<Rightarrow> string + real" where
  "resolve_frequency f =
     (if f \<in> {-1, 0, 1, 2, 4, 12} then Inr (real_of_int f) else Inl ''unknown frequency'')"

definition example_collaborators ::
  "(FinFrequencyTypes, FinDayCountTypes, FinInterpMethods) collaborators"
where
  "example_collaborators =
     \<lparr>FinFrequency = periods_per_year, yearFrac = year_fraction, gDaysInYear = 365,
      interpolate = (\<lambda>t ts vs m. node_value t ts vs),
      inputTime = resolve_time, inputFrequency = resolve_frequency\<rparr>"

text \<open>
  The curve and the store that the constructor returns, in the empty store, for the
  float offsets \<open>1\<close> and \<open>2\<close> with annually compounded rates of 2 and 2.5 per cent.
\<close>

definition example_curve :: "(FinFrequencyTypes, FinDayCountTypes, FinInterpMethods) FinZeroCurve" where
  "example_curve =
     \<lparr>zc_curveDate = FinDate 0, zc_times = 0, zc_values = 1, zc_dayCountType = ACT_365F,
      zc_frequencyType = ANNUAL, zc_interpMethod = FLAT_FORWARDS\<rparr>"

definition example_heap :: heap where
  "example_heap = [[1, 2], [50 / 51, 1600 / 1681]]"

text \<open>
  The curve and the store that the constructor returns, in the empty store, for the
  dates one and two years of 365 days after the curve date, with semi-annually compounded
  rates of 2 and 2.5 per cent under the actual/360 day count.
\<close>

definition example_date_curve ::
  "(FinFrequencyTypes, FinDayCountTypes, FinInterpMethods) FinZeroCurve" where
  "example_date_curve =
     \<lparr>zc_curveDate = FinDate 0, zc_times = 0, zc_values = 1, zc_dayCountType = ACT_360,
      zc_frequencyType = SEMI_ANNUAL, zc_interpMethod = FLAT_FORWARDS\<rparr>"

definition example_date_heap :: heap where
  "example_date_heap =
     [[1, 2], [1 / (101 / 100) powr (73 / 36), 1 / (81 / 80) powr (73 / 18)]]"

text \<open>
  The stores that the constructor returns, in the empty store, for one quote with the
  annually compounded rate \<open>-3\<close>, whose compounding base is \<open>-2\<close>: at the offset \<open>3\<close>, as a
  float or as the date 1095 days after the curve date under the actual/365 day count, and at
  the float offset \<open>2\<close>. The discount factors are \<open>1 / (-2)\<^sup>3\<close> and \<open>1 / (-2)\<^sup>2\<close>.
\<close>

definition example_negative_heap :: heap where
  "example_negative_heap = [[3], [- 1 / 8]]"

definition example_even_heap :: heap where
  "example_even_heap = [[2], [1 / 4]]"

section \<open>Auxiliary facts\<close>

lemma example_construction:
  "FinZeroCurve_init example_collaborators [] (FinDate 0) [PyFloat 1, PyFloat 2] [1 / 50, 1 / 40]
     (Member ANNUAL) (Member ACT_365F) FLAT_FORWARDS = Inr (example_curve, example_heap)"
  by (simp add: FinZeroCurve_init_def example_collaborators_def float_quote_def np_array_def
      np_power_def np_reciprocal_def testMonotonicity_def example_curve_def example_heap_def
      power2_eq_square)

lemma example_df_1:
  "df example_collaborators example_heap example_curve (PyFloat 1) = Inr (50 / 51)"
  by (simp add: df_def example_collaborators_def resolve_time_def example_curve_def
      example_heap_def)

lemma example_df_date1:
  "df example_collaborators example_heap example_curve (PyDate (FinDate 365)) = Inr (50 / 51)"
  by (simp add: df_def example_collaborators_def resolve_time_def example_curve_def
      example_heap_def)

lemma example_df_date2:
  "df example_collaborators example_heap example_curve (PyDate (FinDate 730))
     = Inr (1600 / 1681)"
  by (simp add: df_def example_collaborators_def resolve_time_def example_curve_def
      example_heap_def)

text \<open>
  The expression of the source, \<^verbatim>\<open>1.0 / np.power(x, y)\<close>, is the float \<^verbatim>\<open>np.power(x, -y)\<close>
  in every case, \<^verbatim>\<open>inf\<close> and \<^verbatim>\<open>nan\<close> included.
\<close>

lemma np_reciprocal_np_power: "np_reciprocal (np_power x y) = np_power x (- y)"
proof -
  consider (pos) "0 < x" | (zero) "x = 0" | (neg) "x < 0"
    by linarith
  then show ?thesis
  proof cases
    case pos
    then show ?thesis
      by (simp add: np_power_def np_reciprocal_def powr_minus inverse_eq_divide)
  next
    case zero
    then show ?thesis
      by (simp add: np_power_def np_reciprocal_def)
  next
    case neg
    show ?thesis
    proof (cases "y = real_of_int \<lfloor>y\<rfloor>")
      case True
      then have m: "- y = real_of_int \<lfloor>- y\<rfloor>" and f: "\<lfloor>- y\<rfloor> = - \<lfloor>y\<rfloor>"
        by (metis floor_of_int of_int_minus)+
      have nz: "x powi \<lfloor>y\<rfloor> \<noteq> 0"
        using neg by simp
      show ?thesis
        using neg True m nz
        by (simp add: np_power_def np_reciprocal_def f power_int_minus inverse_eq_divide)
    next
      case False
      then have "- y \<noteq> real_of_int \<lfloor>- y\<rfloor>"
        by (metis floor_of_int of_int_minus minus_minus)
      with neg False show ?thesis
        by (simp add: np_power_def np_reciprocal_def)
    qed
  qed
qed

lemma np_power_pos: "0 < x \<Longrightarrow> np_power x y = Finite (x powr y)"
  by (simp add: np_power_def)

text \<open>
  What a successful run of the loop returns: one pair for each quote, in order, appended
  to the lists it started with.
\<close>

lemma quote_loop_Inr:
  "quote_loop body qs ts vs = Inr (ts', vs') \<Longrightarrow>
     \<exists>ps. length ps = length qs \<and> ts' = ts @ map fst ps \<and> vs' = vs @ map snd ps
       \<and> (\<forall>i < length qs. body (fst (qs ! i)) (snd (qs ! i)) = Inr (ps ! i))"
proof (induction qs arbitrary: ts vs)
  case Nil
  then show ?case by simp
next
  case (Cons q qs)
  obtain x r where q: "q = (x, r)" by (cases q)
  from Cons.prems q obtain t v where b: "body x r = Inr (t, v)"
    and rest: "quote_loop body qs (ts @ [t]) (vs @ [v]) = Inr (ts', vs')"
    by (auto split: sum.splits)
  from Cons.IH [OF rest] obtain ps where ps: "length ps = length qs"
    "ts' = (ts @ [t]) @ map fst ps" "vs' = (vs @ [v]) @ map snd ps"
    "\<forall>i < length qs. body (fst (qs ! i)) (snd (qs ! i)) = Inr (ps ! i)"
    by blast
  have "\<forall>i < length (q # qs).
      body (fst ((q # qs) ! i)) (snd ((q # qs) ! i)) = Inr (((t, v) # ps) ! i)"
    using ps(4) b q by (auto simp add: nth_Cons split: nat.splits)
  then show ?case
    using ps(1-3) by (intro exI [of _ "(t, v) # ps"]) simp
qed

text \<open>An error of the loop is the error of one of its rounds.\<close>

lemma quote_loop_Inl:
  "quote_loop body qs ts vs = Inl e \<Longrightarrow> \<exists>q \<in> set qs. body (fst q) (snd q) = Inl e"
proof (induction qs arbitrary: ts vs)
  case Nil
  then show ?case by simp
next
  case (Cons q qs)
  obtain x r where q: "q = (x, r)" by (cases q)
  show ?case
  proof (cases "body x r")
    case (Inl e')
    with Cons.prems q show ?thesis by simp
  next
    case (Inr tv)
    with Cons.prems q obtain t v where "quote_loop body qs (ts @ [t]) (vs @ [v]) = Inl e"
      by (cases tv) simp
    from Cons.IH [OF this] show ?thesis by simp
  qed
qed

lemma float_quote_Inr:
  "float_quote freq x r = Inr (t, v) \<Longrightarrow>
     as_number x = Some t \<and> 0 \<le> t \<and> freq \<noteq> 0
     \<and> v = (if freq = -1 then exp (- r * t)
              else stored_value (np_power (1 + r / freq) (- (freq * t))))"
  unfolding float_quote_def np_reciprocal_np_power
  by (auto split: option.splits if_splits)

lemma date_quote_Inr:
  "date_quote E curveDate dct freq x r = Inr (t, v) \<Longrightarrow>
     (\<exists>d. x = PyDate d \<and> t = date_sub d curveDate / gDaysInYear E \<and> 0 \<le> t
        \<and> freq \<noteq> 0 \<and> gDaysInYear E \<noteq> 0
        \<and> v = (if freq = -1 then exp (- r * t)
                else stored_value
                       (np_power (1 + r / freq) (- (freq * yearFrac E dct curveDate d)))))"
  unfolding date_quote_def np_reciprocal_np_power Let_def
  by (cases x) (auto split: if_splits)

text \<open>A successful construction, step by step.\<close>

lemma init_Inr:
  assumes "FinZeroCurve_init E h curveDate ts rs frequencyType dayCountType interpMethod
             = Inr (self, h')"
  shows "\<exists>ft dct tsr vs. frequencyType = Member ft \<and> dayCountType = Member dct
     \<and> ts \<noteq> [] \<and> length ts = length rs
     \<and> (if isinstance_float (ts ! 0) then
           quote_loop (float_quote (FinFrequency E ft)) (zip ts rs) [] []
         else if isinstance_FinDate (ts ! 0) then
           quote_loop (date_quote E curveDate dct (FinFrequency E ft)) (zip ts rs) [] []
         else Inl UnsupportedInputType) = Inr (tsr, vs)
     \<and> testMonotonicity tsr
     \<and> h' = h @ [tsr, vs]
     \<and> self = \<lparr>zc_curveDate = curveDate, zc_times = length h, zc_values = Suc (length h),
                zc_dayCountType = dct, zc_frequencyType = ft, zc_interpMethod = interpMethod\<rparr>"
  using assms
  by (auto simp add: FinZeroCurve_init_def np_array_def Let_def
      split: if_splits enum_arg.splits sum.splits prod.splits)

lemma example_date_construction:
  "FinZeroCurve_init example_collaborators [] (FinDate 0)
     [PyDate (FinDate 365), PyDate (FinDate 730)] [1 / 50, 1 / 40]
     (Member SEMI_ANNUAL) (Member ACT_360) FLAT_FORWARDS
   = Inr (example_date_curve, example_date_heap)"
  by (simp add: FinZeroCurve_init_def example_collaborators_def date_quote_def np_array_def
      np_power_def np_reciprocal_def testMonotonicity_def example_date_curve_def
      example_date_heap_def)

text \<open>Constructions on the negative compounding base \<open>-2\<close>.\<close>

lemma negative_base_construction:
  "FinZeroCurve_init example_collaborators [] (FinDate 0) [PyFloat 3] [- 3]
     (Member ANNUAL) (Member ACT_365F) FLAT_FORWARDS = Inr (example_curve, example_negative_heap)"
  by (simp add: FinZeroCurve_init_def example_collaborators_def float_quote_def np_array_def
      np_power_def np_reciprocal_def testMonotonicity_def example_curve_def
      example_negative_heap_def example_even_heap_def)

lemma negative_base_date_construction:
  "FinZeroCurve_init example_collaborators [] (FinDate 0) [PyDate (FinDate 1095)] [- 3]
     (Member ANNUAL) (Member ACT_365F) FLAT_FORWARDS = Inr (example_curve, example_negative_heap)"
  by (simp add: FinZeroCurve_init_def example_collaborators_def date_quote_def np_array_def
      np_power_def np_reciprocal_def testMonotonicity_def example_curve_def
      example_negative_heap_def example_even_heap_def)

lemma negative_base_even_construction:
  "FinZeroCurve_init example_collaborators [] (FinDate 0) [PyFloat 2] [- 3]
     (Member ANNUAL) (Member ACT_365F) FLAT_FORWARDS = Inr (example_curve, example_even_heap)"
  by (simp add: FinZeroCurve_init_def example_collaborators_def float_quote_def np_array_def
      np_power_def np_reciprocal_def testMonotonicity_def example_curve_def
      example_negative_heap_def example_even_heap_def)

text \<open>The power that \<^verbatim>\<open>zeroRate\<close> takes of the discount factor \<open>1 / 4\<close> at the time \<open>2\<close>.\<close>

lemma quarter_powr: "(1 / 4 :: real) powr (- (1 / 2)) = 2"
proof -
  have "(1 / 4 :: real) = 2 powr (- 2)"
    by (simp add: powr_minus)
  then have "(1 / 4 :: real) powr (- (1 / 2)) = (2 powr (- 2)) powr (- (1 / 2))"
    by (rule arg_cong)
  also have "\<dots> = 2 powr ((- 2) * (- (1 / 2)))"
    by (simp only: powr_powr)
  also have "\<dots> = 2"
    by simp
  finally show ?thesis .
qed

text \<open>The errors that one round of either loop can raise.\<close>

lemma float_quote_Inl:
  "float_quote freq x r = Inl e \<Longrightarrow> e = TypeError \<or> e = NegativeTime \<or> e = ZeroDivisionError"
  by (auto simp add: float_quote_def split: option.splits if_splits)

lemma date_quote_Inl:
  "date_quote E curveDate dct freq x r = Inl e \<Longrightarrow>
     e = TypeError \<or> e = NegativeTime \<or> e = ZeroDivisionError"
  by (cases x) (auto simp add: date_quote_def Let_def split: if_splits)

lemma quote_loop_not_unsupported:
  assumes "\<And>x r e. body x r = Inl e \<Longrightarrow> e = TypeError \<or> e = NegativeTime \<or> e = ZeroDivisionError"
  shows "quote_loop body qs ts vs \<noteq> Inl UnsupportedInputType"
proof
  assume "quote_loop body qs ts vs = Inl UnsupportedInputType"
  from quote_loop_Inl [OF this] obtain q where "body (fst q) (snd q) = Inl UnsupportedInputType"
    by blast
  from assms [OF this] show False
    by (simp add: UnsupportedInputType_def NegativeTime_def)
qed

text \<open>An int after a float is taken as a number.\<close>

lemma int_tail_accepted:
  "FinZeroCurve_init example_collaborators [] (FinDate 0) [PyFloat 1, PyInt 2] [1 / 50, 1 / 40]
     (Member ANNUAL) (Member ACT_365F) FLAT_FORWARDS = Inr (example_curve, example_heap)"
  by (simp add: FinZeroCurve_init_def example_collaborators_def float_quote_def np_array_def
      np_power_def np_reciprocal_def testMonotonicity_def example_curve_def example_heap_def
      power2_eq_square)

text \<open>
  The loop on a uniform quote list: it raises the negative-time error when some resolved
  offset is negative, and otherwise returns the resolved offsets as the times.
\<close>

lemma quote_loop_uniform:
  assumes "length ts = length rs"
    and "\<And>x r. x \<in> set ts \<Longrightarrow>
           \<exists>t. f x = Some t
             \<and> (t < 0 \<longrightarrow> body x r = Inl NegativeTime)
             \<and> (\<not> t < 0 \<longrightarrow> (\<exists>v. body x r = Inr (t, v)))"
  shows "((\<exists>x \<in> set ts. \<exists>t. f x = Some t \<and> t < (0::real))
            \<longrightarrow> quote_loop body (zip ts rs) ats avs = Inl NegativeTime)
       \<and> (\<not> (\<exists>x \<in> set ts. \<exists>t. f x = Some t \<and> t < 0)
            \<longrightarrow> (\<exists>vs. quote_loop body (zip ts rs) ats avs
                      = Inr (ats @ List.map_filter f ts, vs)))"
  using assms
proof (induction ts rs arbitrary: ats avs rule: list_induct2)
  case Nil
  then show ?case by (simp add: List.map_filter_simps)
next
  case (Cons x ts r rs)
  from Cons.prems [of x r] obtain t where t: "f x = Some t"
    and neg: "t < 0 \<Longrightarrow> body x r = Inl NegativeTime"
    and pos: "\<not> t < 0 \<Longrightarrow> \<exists>v. body x r = Inr (t, v)"
    by auto
  show ?case
  proof (cases "t < 0")
    case True
    with t neg show ?thesis by auto
  next
    case False
    with pos obtain v where v: "body x r = Inr (t, v)" by auto
    have ih: "((\<exists>x \<in> set ts. \<exists>t. f x = Some t \<and> t < 0)
            \<longrightarrow> quote_loop body (zip ts rs) (ats @ [t]) (avs @ [v]) = Inl NegativeTime)
       \<and> (\<not> (\<exists>x \<in> set ts. \<exists>t. f x = Some t \<and> t < 0)
            \<longrightarrow> (\<exists>vs. quote_loop body (zip ts rs) (ats @ [t]) (avs @ [v])
                      = Inr ((ats @ [t]) @ List.map_filter f ts, vs)))"
      by (rule Cons.IH) (use Cons.prems in auto)
    have ex: "(\<exists>y \<in> set (x # ts). \<exists>t. f y = Some t \<and> t < 0)
                \<longleftrightarrow> (\<exists>y \<in> set ts. \<exists>t. f y = Some t \<and> t < 0)"
      using t False by auto
    have mf: "ats @ List.map_filter f (x # ts) = (ats @ [t]) @ List.map_filter f ts"
      using t by (simp add: List.map_filter_simps)
    have step: "quote_loop body (zip (x # ts) (r # rs)) ats avs
                  = quote_loop body (zip ts rs) (ats @ [t]) (avs @ [v])"
      using v by simp
    show ?thesis
      unfolding ex mf step using ih .
  qed
qed

lemma negative_offset_iff:
  "negative_offset E curveDate x \<longleftrightarrow> (\<exists>t. resolved_offset E curveDate x = Some t \<and> t < 0)"
  by (simp add: negative_offset_def split: option.splits)

lemma resolved_offset_number: "as_number x = Some t \<Longrightarrow> resolved_offset E curveDate x = Some t"
  by (cases x) (simp_all add: resolved_offset_def)

lemma float_loop_uniform:
  assumes "length ts = length rs" and "list_all (\<lambda>y. as_number y \<noteq> None) ts" and "freq \<noteq> 0"
  shows "((\<exists>x \<in> set ts. \<exists>t. resolved_offset E curveDate x = Some t \<and> t < 0)
            \<longrightarrow> quote_loop (float_quote freq) (zip ts rs) [] [] = Inl NegativeTime)
       \<and> (\<not> (\<exists>x \<in> set ts. \<exists>t. resolved_offset E curveDate x = Some t \<and> t < 0)
            \<longrightarrow> (\<exists>vs. quote_loop (float_quote freq) (zip ts rs) [] []
                      = Inr (List.map_filter (resolved_offset E curveDate) ts, vs)))"
proof -
  have "\<exists>t. resolved_offset E curveDate x = Some t
          \<and> (t < 0 \<longrightarrow> float_quote freq x r = Inl NegativeTime)
          \<and> (\<not> t < 0 \<longrightarrow> (\<exists>v. float_quote freq x r = Inr (t, v)))"
    if "x \<in> set ts" for x r
  proof -
    from that assms(2) obtain t where t: "as_number x = Some t"
      by (auto simp add: list_all_iff)
    from t assms(3) have "(t < 0 \<longrightarrow> float_quote freq x r = Inl NegativeTime)
          \<and> (\<not> t < 0 \<longrightarrow> (\<exists>v. float_quote freq x r = Inr (t, v)))"
      by (simp add: float_quote_def)
    with resolved_offset_number [OF t, of E curveDate] show ?thesis by blast
  qed
  from quote_loop_uniform [OF assms(1), of "resolved_offset E curveDate" "float_quote freq",
      OF this, of "[]" "[]"]
  show ?thesis by simp
qed

lemma date_loop_uniform:
  assumes "length ts = length rs" and "list_all isinstance_FinDate ts" and "freq \<noteq> 0"
    and "gDaysInYear E \<noteq> 0"
  shows "((\<exists>x \<in> set ts. \<exists>t. resolved_offset E curveDate x = Some t \<and> t < 0)
            \<longrightarrow> quote_loop (date_quote E curveDate dct freq) (zip ts rs) [] []
                  = Inl NegativeTime)
       \<and> (\<not> (\<exists>x \<in> set ts. \<exists>t. resolved_offset E curveDate x = Some t \<and> t < 0)
            \<longrightarrow> (\<exists>vs. quote_loop (date_quote E curveDate dct freq) (zip ts rs) [] []
                      = Inr (List.map_filter (resolved_offset E curveDate) ts, vs)))"
proof -
  have "\<exists>t. resolved_offset E curveDate x = Some t
          \<and> (t < 0 \<longrightarrow> date_quote E curveDate dct freq x r = Inl NegativeTime)
          \<and> (\<not> t < 0 \<longrightarrow> (\<exists>v. date_quote E curveDate dct freq x r = Inr (t, v)))"
    if "x \<in> set ts" for x r
  proof -
    from that assms(2) have "isinstance_FinDate x"
      by (simp add: list_all_iff)
    then obtain d where d: "x = PyDate d"
      by (cases x) simp_all
    show ?thesis
      using assms(3,4) unfolding d
      by (simp add: date_quote_def resolved_offset_def Let_def)
  qed
  from quote_loop_uniform [OF assms(1), of "resolved_offset E curveDate"
      "date_quote E curveDate dct freq", OF this, of "[]" "[]"]
  show ?thesis by simp
qed

text \<open>The constructor once its four argument checks have passed.\<close>

lemma init_members:
  assumes "ts \<noteq> []" and "length ts = length rs"
  shows "FinZeroCurve_init E h curveDate ts rs (Member ft) (Member dct) interpMethod =
     (case (if isinstance_float (ts ! 0) then
              quote_loop (float_quote (FinFrequency E ft)) (zip ts rs) [] []
            else if isinstance_FinDate (ts ! 0) then
              quote_loop (date_quote E curveDate dct (FinFrequency E ft)) (zip ts rs) [] []
            else Inl UnsupportedInputType) of
        Inl e \<Rightarrow> Inl e
      | Inr (tsr, vs) \<Rightarrow>
          if \<not> sorted tsr then Inl NotMonotonic
          else Inr (\<lparr>zc_curveDate = curveDate, zc_times = length h,
                     zc_values = Suc (length h), zc_dayCountType = dct,
                     zc_frequencyType = ft, zc_interpMethod = interpMethod\<rparr>,
                    h @ [tsr, vs]))"
proof -
  from assms have a: "(length ts = 0) = False" "(length ts \<noteq> length rs) = False"
    by auto
  show ?thesis
    unfolding FinZeroCurve_init_def np_array_def testMonotonicity_def Let_def a
    by (simp split: sum.splits prod.splits)
qed

text \<open>What the float branch stores, and that it ran with a nonzero frequency.\<close>

lemma init_float_stored:
  assumes "FinZeroCurve_init E h curveDate ts rs frequencyType dayCountType interpMethod
             = Inr (self, h')"
    and "isinstance_float (ts ! 0)"
  shows "FinFrequency E (zc_frequencyType self) \<noteq> 0
     \<and> frequencyType = Member (zc_frequencyType self)
     \<and> length (h' ! zc_times self) = length ts
     \<and> length (h' ! zc_values self) = length ts
     \<and> (\<forall>i < length ts. \<exists>t. as_number (ts ! i) = Some t \<and> 0 \<le> t
           \<and> h' ! zc_times self ! i = t
           \<and> h' ! zc_values self ! i =
               (if FinFrequency E (zc_frequencyType self) = -1 then exp (- (rs ! i) * t)
                else stored_value
                       (np_power (1 + rs ! i / FinFrequency E (zc_frequencyType self))
                          (- (FinFrequency E (zc_frequencyType self) * t)))))"
proof -
  from init_Inr [OF assms(1)] assms(2) obtain ft dct tsr vs where
    ft: "frequencyType = Member ft" and len: "length ts = length rs"
    and loop: "quote_loop (float_quote (FinFrequency E ft)) (zip ts rs) [] [] = Inr (tsr, vs)"
    and h': "h' = h @ [tsr, vs]"
    and self: "self = \<lparr>zc_curveDate = curveDate, zc_times = length h,
        zc_values = Suc (length h), zc_dayCountType = dct, zc_frequencyType = ft,
        zc_interpMethod = interpMethod\<rparr>"
    by auto
  from quote_loop_Inr [OF loop] obtain ps where ps: "length ps = length (zip ts rs)"
    "tsr = map fst ps" "vs = map snd ps"
    "\<forall>i < length (zip ts rs).
       float_quote (FinFrequency E ft) (fst (zip ts rs ! i)) (snd (zip ts rs ! i)) = Inr (ps ! i)"
    by auto
  have times: "h' ! zc_times self = tsr" and vals: "h' ! zc_values self = vs"
    using h' self by (simp_all add: nth_append)
  have lps: "length ps = length ts"
    using ps(1) len by simp
  have "\<exists>t. as_number (ts ! i) = Some t \<and> 0 \<le> t \<and> tsr ! i = t
           \<and> vs ! i = (if FinFrequency E ft = -1 then exp (- (rs ! i) * t)
                else stored_value
                       (np_power (1 + rs ! i / FinFrequency E ft) (- (FinFrequency E ft * t))))"
    if i: "i < length ts" for i
  proof -
    have "float_quote (FinFrequency E ft) (ts ! i) (rs ! i) = Inr (fst (ps ! i), snd (ps ! i))"
      using ps(4) i len by simp
    from float_quote_Inr [OF this] show ?thesis
      using ps(2,3) lps i by simp
  qed
  moreover have "FinFrequency E ft \<noteq> 0"
  proof -
    from assms(1) init_Inr [OF assms(1)] have "0 < length ts"
      by auto
    then have "float_quote (FinFrequency E ft) (ts ! 0) (rs ! 0)
        = Inr (fst (ps ! 0), snd (ps ! 0))"
      using ps(4) len by simp
    from float_quote_Inr [OF this] show ?thesis by simp
  qed
  ultimately show ?thesis
    using ft self times vals ps(2,3) lps by simp
qed

text \<open>What the date branch stores.\<close>

lemma init_date_stored:
  assumes "FinZeroCurve_init E h curveDate ts rs frequencyType dayCountType interpMethod
             = Inr (self, h')"
    and "isinstance_FinDate (ts ! 0)"
  shows "frequencyType = Member (zc_frequencyType self)
     \<and> dayCountType = Member (zc_dayCountType self)
     \<and> length (h' ! zc_times self) = length ts
     \<and> length (h' ! zc_values self) = length ts
     \<and> (\<forall>i < length ts. \<exists>d.
           ts ! i = PyDate d
           \<and> h' ! zc_times self ! i = date_sub d curveDate / gDaysInYear E
           \<and> 0 \<le> h' ! zc_times self ! i
           \<and> h' ! zc_values self ! i =
               (if FinFrequency E (zc_frequencyType self) = -1
                then exp (- (rs ! i) * (h' ! zc_times self ! i))
                else stored_value
                       (np_power (1 + rs ! i / FinFrequency E (zc_frequencyType self))
                          (- (FinFrequency E (zc_frequencyType self)
                               * yearFrac E (zc_dayCountType self) curveDate d)))))"
proof -
  have nf: "\<not> isinstance_float (ts ! 0)"
    using assms(2) by (cases "ts ! 0") simp_all
  from init_Inr [OF assms(1)] assms(2) nf obtain ft dct tsr vs where
    ft: "frequencyType = Member ft" and dct: "dayCountType = Member dct"
    and len: "length ts = length rs"
    and loop: "quote_loop (date_quote E curveDate dct (FinFrequency E ft)) (zip ts rs) [] []
                 = Inr (tsr, vs)"
    and h': "h' = h @ [tsr, vs]"
    and self: "self = \<lparr>zc_curveDate = curveDate, zc_times = length h,
        zc_values = Suc (length h), zc_dayCountType = dct, zc_frequencyType = ft,
        zc_interpMethod = interpMethod\<rparr>"
    by auto
  from quote_loop_Inr [OF loop] obtain ps where ps: "length ps = length (zip ts rs)"
    "tsr = map fst ps" "vs = map snd ps"
    "\<forall>i < length (zip ts rs).
       date_quote E curveDate dct (FinFrequency E ft) (fst (zip ts rs ! i)) (snd (zip ts rs ! i))
         = Inr (ps ! i)"
    by auto
  have times: "h' ! zc_times self = tsr" and vals: "h' ! zc_values self = vs"
    using h' self by (simp_all add: nth_append)
  have sf: "zc_frequencyType self = ft" and sd: "zc_dayCountType self = dct"
    using self by simp_all
  have lps: "length ps = length ts"
    using ps(1) len by simp
  have each: "\<exists>d. ts ! i = PyDate d \<and> tsr ! i = date_sub d curveDate / gDaysInYear E
           \<and> 0 \<le> tsr ! i
           \<and> vs ! i = (if FinFrequency E ft = -1 then exp (- (rs ! i) * (tsr ! i))
                else stored_value
                       (np_power (1 + rs ! i / FinFrequency E ft)
                          (- (FinFrequency E ft * yearFrac E dct curveDate d))))"
    if i: "i < length ts" for i
  proof -
    have "date_quote E curveDate dct (FinFrequency E ft) (ts ! i) (rs ! i)
            = Inr (fst (ps ! i), snd (ps ! i))"
      using ps(4) i len by simp
    from date_quote_Inr [OF this] show ?thesis
      using ps(2,3) lps i by auto
  qed
  have "length tsr = length ts" "length vs = length ts"
    using ps(2,3) lps by simp_all
  with each ft dct show ?thesis
    unfolding times vals sf sd by blast
qed

text \<open>
  The rate that \<^verbatim>\<open>zeroRate\<close> recovers from a discount factor built with the same
  frequency: continuous compounding, and periodic compounding on a positive base.
\<close>

lemma zeroRate_branches_continuous:
  assumes "t \<noteq> 0"
  shows "zeroRate_branches (exp (- r * t)) t (- 1) = Inr r"
  using assms by (simp add: zeroRate_branches_def)

lemma zeroRate_branches_periodic:
  assumes "t \<noteq> 0" and "f \<noteq> 0" and "f \<noteq> - 1" and "0 < 1 + r / f"
  shows "zeroRate_branches ((1 + r / f) powr (- (f * t))) t f = Inr r"
proof -
  let ?B = "1 + r / f"
  let ?d = "?B powr (- (f * t))"
  have d: "?d \<noteq> 0"
    using assms(4) by simp
  have e: "(- (f * t)) * (- 1 / t / f) = 1"
    using assms(1,2) by simp
  have "?d powr (- 1 / t / f) = ?B powr ((- (f * t)) * (- 1 / t / f))"
    by (simp only: powr_powr)
  also have "\<dots> = ?B"
    using assms(4) unfolding e by simp
  finally have p: "?d powr (- 1 / t / f) = ?B" .
  have "(?B - 1) * f = r"
    using assms(2) by simp
  with p d assms(1,2,3) show ?thesis
    by (simp add: zeroRate_branches_def zeroRate_periodic_def py_div_def py_pow_def)
qed

lemma example_df_2:
  "interpolate example_collaborators 2 (example_heap ! zc_times example_curve)
     (example_heap ! zc_values example_curve) (zc_interpMethod example_curve)
   = example_heap ! zc_values example_curve ! 1"
  by (simp add: example_collaborators_def example_curve_def example_heap_def)

text \<open>
  The loop of \<^verbatim>\<open>bump\<close> over distinct indices inside both arrays: it raises nothing,
  writes to the array at \<open>vp\<close> only, and scales exactly the entries it visits.
\<close>

lemma bump_loop_result:
  assumes "tp < length h" and "vp < length h" and "tp \<noteq> vp"
    and "distinct is"
    and "\<forall>i \<in> set is. i < length (h ! tp) \<and> i < length (h ! vp)"
  shows "\<exists>h'. bump_loop b tp vp is h = Inr h'
     \<and> length h' = length h
     \<and> (\<forall>p < length h. p \<noteq> vp \<longrightarrow> h' ! p = h ! p)
     \<and> length (h' ! vp) = length (h ! vp)
     \<and> (\<forall>j < length (h ! vp).
           h' ! vp ! j = (if j \<in> set is then h ! vp ! j * exp (- b * (h ! tp ! j))
                          else h ! vp ! j))"
  using assms
proof (induction "is" arbitrary: h)
  case Nil
  then show ?case by simp
next
  case (Cons i "is")
  let ?h1 = "np_setitem vp i (h ! vp ! i * exp (- b * (h ! tp ! i))) h"
  have i: "i < length (h ! tp)" "i < length (h ! vp)" "i \<notin> set is"
    using Cons.prems by simp_all
  have l1: "length ?h1 = length h"
    by (simp add: np_setitem_def)
  have tp1: "?h1 ! tp = h ! tp"
    using Cons.prems(1,3) by (simp add: np_setitem_def)
  have vp1: "?h1 ! vp = (h ! vp)[i := h ! vp ! i * exp (- b * (h ! tp ! i))]"
    using Cons.prems(2) by (simp add: np_setitem_def)
  have other: "\<forall>p < length h. p \<noteq> vp \<longrightarrow> ?h1 ! p = h ! p"
    by (simp add: np_setitem_def)
  have "\<exists>h'. bump_loop b tp vp is ?h1 = Inr h'
     \<and> length h' = length ?h1
     \<and> (\<forall>p < length ?h1. p \<noteq> vp \<longrightarrow> h' ! p = ?h1 ! p)
     \<and> length (h' ! vp) = length (?h1 ! vp)
     \<and> (\<forall>j < length (?h1 ! vp).
           h' ! vp ! j = (if j \<in> set is then ?h1 ! vp ! j * exp (- b * (?h1 ! tp ! j))
                          else ?h1 ! vp ! j))"
    by (rule Cons.IH) (use Cons.prems l1 tp1 vp1 in auto)
  then obtain h' where h': "bump_loop b tp vp is ?h1 = Inr h'"
    "length h' = length ?h1"
    "\<forall>p < length ?h1. p \<noteq> vp \<longrightarrow> h' ! p = ?h1 ! p"
    "length (h' ! vp) = length (?h1 ! vp)"
    "\<forall>j < length (?h1 ! vp).
           h' ! vp ! j = (if j \<in> set is then ?h1 ! vp ! j * exp (- b * (?h1 ! tp ! j))
                          else ?h1 ! vp ! j)"
    by blast
  have run: "bump_loop b tp vp (i # is) h = Inr h'"
    using h'(1) i by (simp add: Let_def)
  have "h' ! vp ! j = (if j \<in> set (i # is) then h ! vp ! j * exp (- b * (h ! tp ! j))
                        else h ! vp ! j)"
    if "j < length (h ! vp)" for j
  proof -
    from that h'(5) vp1 have "h' ! vp ! j
        = (if j \<in> set is then ?h1 ! vp ! j * exp (- b * (?h1 ! tp ! j)) else ?h1 ! vp ! j)"
      by simp
    moreover have "j \<noteq> i" if "j \<in> set is"
      using that i(3) by auto
    ultimately show ?thesis
      using that unfolding tp1 vp1 by (auto simp add: nth_list_update)
  qed
  with run h'(2,3,4) l1 vp1 other show ?case
    by auto
qed

text \<open>
  The result of \<^verbatim>\<open>bump\<close> on a valid curve: two arrays are appended to the store, a
  copy of the times and the scaled values, and the new curve refers to them.
\<close>

lemma bump_result:
  assumes "valid_curve h self"
  shows "bump h self bumpSize =
     Inr (DiscountCurveObject
            \<lparr>dc_curveDate = zc_curveDate self, dc_times = length h,
             dc_values = Suc (length h), dc_interpMethod = zc_interpMethod self\<rparr>,
          h @ [h ! zc_times self,
               map2 (\<lambda>v t. v * exp (- bumpSize * t)) (h ! zc_values self) (h ! zc_times self)])"
proof -
  let ?ts = "h ! zc_times self" and ?vs = "h ! zc_values self"
  let ?h2 = "h @ [?ts, ?vs]"
  let ?tp = "length h" and ?vp = "Suc (length h)"
  from assms have v: "zc_times self < length h" "zc_values self < length h"
    "length ?ts = length ?vs"
    by (simp_all add: valid_curve_def)
  have c1: "np_copy (zc_times self) h = (?tp, h @ [?ts])"
    by (simp add: np_copy_def np_array_def)
  have c2: "np_copy (zc_values self) (h @ [?ts]) = (?vp, ?h2)"
    using v(2) by (simp add: np_copy_def np_array_def nth_append)
  have n: "length (?h2 ! zc_times self) = length ?ts"
    using v(1) by (simp add: nth_append)
  have tp2: "?h2 ! ?tp = ?ts" and vp2: "?h2 ! ?vp = ?vs"
    by (simp_all add: nth_append)
  have "\<exists>h'. bump_loop bumpSize ?tp ?vp [0..<length ?ts] ?h2 = Inr h'
     \<and> length h' = length ?h2
     \<and> (\<forall>p < length ?h2. p \<noteq> ?vp \<longrightarrow> h' ! p = ?h2 ! p)
     \<and> length (h' ! ?vp) = length (?h2 ! ?vp)
     \<and> (\<forall>j < length (?h2 ! ?vp).
           h' ! ?vp ! j = (if j \<in> set [0..<length ?ts]
                           then ?h2 ! ?vp ! j * exp (- bumpSize * (?h2 ! ?tp ! j))
                           else ?h2 ! ?vp ! j))"
    by (rule bump_loop_result) (use v(3) tp2 vp2 in simp_all)
  then obtain h' where h': "bump_loop bumpSize ?tp ?vp [0..<length ?ts] ?h2 = Inr h'"
    "length h' = length ?h2"
    "\<forall>p < length ?h2. p \<noteq> ?vp \<longrightarrow> h' ! p = ?h2 ! p"
    "length (h' ! ?vp) = length ?vs"
    "\<forall>j < length ?vs. h' ! ?vp ! j = ?vs ! j * exp (- bumpSize * (?ts ! j))"
    unfolding tp2 vp2 using v(3) by auto
  have new: "h' ! ?vp = map2 (\<lambda>v t. v * exp (- bumpSize * t)) ?vs ?ts"
    using h'(4,5) v(3) by (intro nth_equalityI) simp_all
  have "h' = h @ [?ts, map2 (\<lambda>v t. v * exp (- bumpSize * t)) ?vs ?ts]"
  proof (rule nth_equalityI)
    show "length h' = length (h @ [?ts, map2 (\<lambda>v t. v * exp (- bumpSize * t)) ?vs ?ts])"
      using h'(2) by simp
  next
    fix p assume p: "p < length h'"
    show "h' ! p = (h @ [?ts, map2 (\<lambda>v t. v * exp (- bumpSize * t)) ?vs ?ts]) ! p"
    proof (cases "p = ?vp")
      case True
      with new show ?thesis by (simp add: nth_append)
    next
      case False
      with p h'(2,3) have "h' ! p = ?h2 ! p" by simp
      with False p h'(2) show ?thesis
        by (auto simp add: nth_append nth_Cons split: nat.splits)
    qed
  qed
  with h'(1) show ?thesis
    by (simp add: bump_def c1 c2 n Let_def)
qed

text \<open>The constructor returns a valid curve.\<close>

lemma init_valid_curve:
  assumes "FinZeroCurve_init E h curveDate ts rs frequencyType dayCountType interpMethod
             = Inr (self, h')"
  shows "valid_curve h' self"
proof -
  from init_Inr [OF assms] obtain ft dct tsr vs where
    loop: "(if isinstance_float (ts ! 0) then
           quote_loop (float_quote (FinFrequency E ft)) (zip ts rs) [] []
         else if isinstance_FinDate (ts ! 0) then
           quote_loop (date_quote E curveDate dct (FinFrequency E ft)) (zip ts rs) [] []
         else Inl UnsupportedInputType) = Inr (tsr, vs)"
    and h': "h' = h @ [tsr, vs]"
    and self: "self = \<lparr>zc_curveDate = curveDate, zc_times = length h,
        zc_values = Suc (length h), zc_dayCountType = dct, zc_frequencyType = ft,
        zc_interpMethod = interpMethod\<rparr>"
    by blast
  from loop obtain body where "quote_loop body (zip ts rs) [] [] = Inr (tsr, vs)"
    by (auto split: if_splits)
  from quote_loop_Inr [OF this] have "length tsr = length vs"
    by auto
  with h' self show ?thesis
    by (simp add: valid_curve_def nth_append)
qed

lemma example_valid: "valid_curve example_heap example_curve"
  using init_valid_curve [OF example_construction] .

section \<open>Queries: the claims\<close>

text \<open>
  Claim C9. For every curve and every query input \<open>dt\<close>, \<^verbatim>\<open>survProb(dt)\<close> returns what
  \<^verbatim>\<open>df(dt)\<close> returns, an error included: both resolve the time in the same way and hand
  the same stored arrays and method to the interpolation.
\<close>

theorem survProb_is_df: "survProb E h self dt = df E h self dt"
  by (simp add: survProb_def df_def)

text \<open>
  Claim C1. The claim is that a compounding frequency that resolves to \<open>0\<close> returns the
  simple-interest rate. In the source the simple-interest assignment is followed by a
  separate \<^verbatim>\<open>if f == -1 ... else ...\<close>, so for \<open>f = 0\<close> the periodic branch runs next and
  divides by \<open>f\<close>: whenever the time and the frequency resolve and the discount factor is
  found, \<^verbatim>\<open>zeroRate\<close> raises \<^verbatim>\<open>ZeroDivisionError\<close> and returns no rate.
\<close>

theorem zeroRate_simple_frequency_raises:
  assumes "inputTime E dt self = Inr t"
    and "inputFrequency E compoundingFreq = Inr 0"
    and "df E h self (PyFloat t) = Inr d"
  shows "zeroRate E h self dt compoundingFreq = Inl ZeroDivisionError"
proof -
  have "zeroRate_branches d t 0 = Inl ZeroDivisionError"
    by (simp add: zeroRate_branches_def zeroRate_simple_def zeroRate_periodic_def py_div_def
        split: sum.splits)
  with assms show ?thesis
    by (simp add: zeroRate_def)
qed

theorem zeroRate_simple_frequency_raises_witness:
  "FinZeroCurve_init example_collaborators [] (FinDate 0) [PyFloat 1, PyFloat 2] [1 / 50, 1 / 40]
     (Member ANNUAL) (Member ACT_365F) FLAT_FORWARDS = Inr (example_curve, example_heap)
   \<and> inputTime example_collaborators (PyFloat 1) example_curve = Inr 1
   \<and> inputFrequency example_collaborators 0 = Inr 0
   \<and> df example_collaborators example_heap example_curve (PyFloat 1) = Inr (50 / 51)
   \<and> zeroRate example_collaborators example_heap example_curve (PyFloat 1) 0
       = Inl ZeroDivisionError"
proof -
  have a: "inputTime example_collaborators (PyFloat 1) example_curve = Inr 1"
    by (simp add: example_collaborators_def resolve_time_def)
  have b: "inputFrequency example_collaborators 0 = Inr 0"
    by (simp add: example_collaborators_def resolve_frequency_def)
  show ?thesis
    using example_construction a b example_df_1
      zeroRate_simple_frequency_raises [OF a b example_df_1]
    by simp
qed

text \<open>
  Claim C7. \<^verbatim>\<open>fwdRate(date1, date2, dayCountType)\<close> raises one of its two date-order errors
  exactly when \<open>date1\<close> is before the curve date or \<open>date2\<close> is before \<open>date1\<close>. When
  neither holds, both discount factors are found, the second one is not zero and the
  year fraction is not zero, it returns \<open>(df1 / df2 - 1) / yearFrac(date1, date2)\<close> under
  the day count the caller chose.
\<close>

theorem fwdRate_date_order:
  "((\<exists>msg. fwdRate E h self date1 date2 dayCountType = Inl (ValueError msg))
      \<longleftrightarrow> (date_less date1 (zc_curveDate self) \<or> date_less date2 date1))
   \<and> (\<not> date_less date1 (zc_curveDate self) \<and> \<not> date_less date2 date1
        \<and> df E h self (PyDate date1) = Inr df1 \<and> df E h self (PyDate date2) = Inr df2
        \<and> df2 \<noteq> 0 \<and> yearFrac E dayCountType date1 date2 \<noteq> 0
      \<longrightarrow> fwdRate E h self date1 date2 dayCountType
            = Inr ((df1 / df2 - 1) / yearFrac E dayCountType date1 date2))"
proof -
  have df_err: "\<And>dt msg. df E h self dt \<noteq> Inl (ValueError msg)"
    by (simp add: df_def split: sum.splits)
  have "(\<exists>msg. fwdRate E h self date1 date2 dayCountType = Inl (ValueError msg))
      \<longleftrightarrow> (date_less date1 (zc_curveDate self) \<or> date_less date2 date1)"
    using df_err [of "PyDate date1"] df_err [of "PyDate date2"]
    by (auto simp add: fwdRate_def py_div_def Let_def split: sum.splits if_splits)
  moreover have "\<not> date_less date1 (zc_curveDate self) \<and> \<not> date_less date2 date1
        \<and> df E h self (PyDate date1) = Inr df1 \<and> df E h self (PyDate date2) = Inr df2
        \<and> df2 \<noteq> 0 \<and> yearFrac E dayCountType date1 date2 \<noteq> 0
      \<longrightarrow> fwdRate E h self date1 date2 dayCountType
            = Inr ((df1 / df2 - 1) / yearFrac E dayCountType date1 date2)"
    by (simp add: fwdRate_def py_div_def Let_def)
  ultimately show ?thesis by blast
qed

theorem fwdRate_date_order_witness:
  "\<not> date_less (FinDate 365) (zc_curveDate example_curve)
   \<and> \<not> date_less (FinDate 730) (FinDate 365)
   \<and> df example_collaborators example_heap example_curve (PyDate (FinDate 365)) = Inr (50 / 51)
   \<and> df example_collaborators example_heap example_curve (PyDate (FinDate 730))
       = Inr (1600 / 1681)
   \<and> yearFrac example_collaborators ACT_360 (FinDate 365) (FinDate 730) = 365 / 360
   \<and> fwdRate example_collaborators example_heap example_curve (FinDate 365) (FinDate 730) ACT_360
       = Inr ((50 / 51 / (1600 / 1681) - 1) / (365 / 360))
   \<and> date_less (FinDate 365) (FinDate 730)
   \<and> (\<exists>msg. fwdRate example_collaborators example_heap example_curve (FinDate 730) (FinDate 365)
          ACT_360 = Inl (ValueError msg))"
proof -
  have c: "zc_curveDate example_curve = FinDate 0"
    by (simp add: example_curve_def)
  have y: "yearFrac example_collaborators ACT_360 (FinDate 365) (FinDate 730) = 365 / 360"
    by (simp add: example_collaborators_def)
  have "fwdRate example_collaborators example_heap example_curve (FinDate 365) (FinDate 730) ACT_360
     = Inr ((50 / 51 / (1600 / 1681) - 1) / (365 / 360))"
    using fwdRate_date_order [of example_collaborators example_heap example_curve
        "FinDate 365" "FinDate 730" ACT_360 "50 / 51" "1600 / 1681"]
      example_df_date1 example_df_date2 c y
    by simp
  moreover have "\<exists>msg. fwdRate example_collaborators example_heap example_curve (FinDate 730)
      (FinDate 365) ACT_360 = Inl (ValueError msg)"
    using fwdRate_date_order [of example_collaborators example_heap example_curve
        "FinDate 730" "FinDate 365" ACT_360 0 0] c
    by simp
  ultimately show ?thesis
    using example_df_date1 example_df_date2 c y by simp
qed

section \<open>Construction: the claims\<close>

text \<open>
  Claim C5. When the first time is a float and the construction succeeds, the stored
  time at every index is the number provided, it is not negative, and the stored discount
  factor is \<open>exp (- r * t)\<close> when the frequency resolves to \<open>-1\<close> and the power
  \<open>(1 + r / freq)\<close> to the \<open>- (freq * t)\<close> otherwise, as \<^verbatim>\<open>np.power\<close> computes it, whenever that
  power is a finite float. The source evaluates \<^verbatim>\<open>1.0 / np.power(1.0 + r/freq, freq * t)\<close>,
  which is that power. On a negative base with a whole exponent it is the signed power;
  where it is \<^verbatim>\<open>inf\<close> or \<^verbatim>\<open>nan\<close> the formula of the claim names no number.
\<close>

theorem float_mode_discount_factors:
  assumes "FinZeroCurve_init E h curveDate ts rs frequencyType dayCountType interpMethod
             = Inr (self, h')"
    and "isinstance_float (ts ! 0)"
  shows "frequencyType = Member (zc_frequencyType self)
     \<and> length (h' ! zc_times self) = length ts
     \<and> length (h' ! zc_values self) = length ts
     \<and> (\<forall>i < length ts. \<exists>t. as_number (ts ! i) = Some t \<and> 0 \<le> t
           \<and> h' ! zc_times self ! i = t
           \<and> (FinFrequency E (zc_frequencyType self) = -1
                \<longrightarrow> h' ! zc_values self ! i = exp (- (rs ! i) * t))
           \<and> (FinFrequency E (zc_frequencyType self) \<noteq> -1
                \<longrightarrow> (\<forall>v. np_power (1 + rs ! i / FinFrequency E (zc_frequencyType self))
                              (- (FinFrequency E (zc_frequencyType self) * t)) = Finite v
                         \<longrightarrow> h' ! zc_values self ! i = v)))"
proof -
  let ?f = "FinFrequency E (zc_frequencyType self)"
  note stored = init_float_stored [OF assms]
  have "\<exists>t. as_number (ts ! i) = Some t \<and> 0 \<le> t \<and> h' ! zc_times self ! i = t
          \<and> (?f = -1 \<longrightarrow> h' ! zc_values self ! i = exp (- (rs ! i) * t))
          \<and> (?f \<noteq> -1 \<longrightarrow> (\<forall>v. np_power (1 + rs ! i / ?f) (- (?f * t)) = Finite v
                                 \<longrightarrow> h' ! zc_values self ! i = v))"
    if "i < length ts" for i
  proof -
    from stored that obtain t where t: "as_number (ts ! i) = Some t" "0 \<le> t"
      "h' ! zc_times self ! i = t"
      and v: "h' ! zc_values self ! i =
         (if ?f = -1 then exp (- (rs ! i) * t)
          else stored_value (np_power (1 + rs ! i / ?f) (- (?f * t))))"
      by blast
    have "?f = -1 \<longrightarrow> h' ! zc_values self ! i = exp (- (rs ! i) * t)"
      using v by simp
    moreover have "?f \<noteq> -1 \<longrightarrow> (\<forall>v. np_power (1 + rs ! i / ?f) (- (?f * t)) = Finite v
                                 \<longrightarrow> h' ! zc_values self ! i = v)"
      using v by simp
    ultimately show ?thesis
      using t by blast
  qed
  moreover from stored have "frequencyType = Member (zc_frequencyType self)"
    "length (h' ! zc_times self) = length ts" "length (h' ! zc_values self) = length ts"
    by blast+
  ultimately show ?thesis
    by blast
qed

theorem float_mode_discount_factors_witness:
  "FinZeroCurve_init example_collaborators [] (FinDate 0) [PyFloat 1, PyFloat 2] [1 / 50, 1 / 40]
     (Member ANNUAL) (Member ACT_365F) FLAT_FORWARDS = Inr (example_curve, example_heap)
   \<and> isinstance_float ([PyFloat 1, PyFloat 2] ! 0)
   \<and> FinFrequency example_collaborators (zc_frequencyType example_curve) = 1
   \<and> np_power (1 + (1 / 40) / 1) (- (1 * 2)) = Finite (1600 / 1681)
   \<and> example_heap ! zc_times example_curve ! 1 = 2
   \<and> example_heap ! zc_values example_curve ! 1 = 1600 / 1681
   \<and> FinZeroCurve_init example_collaborators [] (FinDate 0) [PyFloat 3] [- 3]
     (Member ANNUAL) (Member ACT_365F) FLAT_FORWARDS = Inr (example_curve, example_negative_heap)
   \<and> isinstance_float ([PyFloat 3] ! 0)
   \<and> np_power (1 + (- 3) / 1) (- (1 * 3)) = Finite (- 1 / 8)
   \<and> example_negative_heap ! zc_values example_curve ! 0 = - 1 / 8"
proof -
  have b: "isinstance_float ([PyFloat 1, PyFloat 2] ! 0)"
    by simp
  have f: "FinFrequency example_collaborators (zc_frequencyType example_curve) = 1"
    by (simp add: example_collaborators_def example_curve_def)
  have i: "1 < length [PyFloat 1, PyFloat 2]"
    by simp
  have p: "np_power (1 + (1 / 40) / 1) (- (1 * 2)) = Finite (1600 / 1681)"
    by (simp add: np_power_def powr_minus power2_eq_square)
  from float_mode_discount_factors [OF example_construction b,
      THEN conjunct2, THEN conjunct2, THEN conjunct2, rule_format, OF i]
  obtain t where n: "as_number ([PyFloat 1, PyFloat 2] ! 1) = Some t"
    and t: "example_heap ! zc_times example_curve ! 1 = t"
    and v: "FinFrequency example_collaborators (zc_frequencyType example_curve) \<noteq> -1
       \<longrightarrow> (\<forall>v. np_power (1 + [1 / 50, 1 / 40] ! 1
                     / FinFrequency example_collaborators (zc_frequencyType example_curve))
                 (- (FinFrequency example_collaborators (zc_frequencyType example_curve) * t))
                 = Finite v
               \<longrightarrow> example_heap ! zc_values example_curve ! 1 = v)"
    by blast
  from n have t': "t = 2"
    by simp
  have r1: "example_heap ! zc_times example_curve ! 1 = 2"
    using t t' by simp
  have q: "np_power (1 + [1 / 50, 1 / 40] ! 1
                     / FinFrequency example_collaborators (zc_frequencyType example_curve))
                 (- (FinFrequency example_collaborators (zc_frequencyType example_curve) * t))
                 = Finite (1600 / 1681)"
    unfolding t' f by (simp add: np_power_def powr_minus power2_eq_square)
  have m: "FinFrequency example_collaborators (zc_frequencyType example_curve) \<noteq> -1"
    using f by simp
  have r2: "example_heap ! zc_values example_curve ! 1 = 1600 / 1681"
    by (rule v [rule_format, OF m q])
  have b': "isinstance_float ([PyFloat 3] ! 0)"
    by simp
  have i': "0 < length [PyFloat 3]"
    by simp
  have p': "np_power (1 + (- 3) / 1) (- (1 * 3)) = Finite (- 1 / 8)"
    by (simp add: np_power_def)
  from float_mode_discount_factors [OF negative_base_construction b',
      THEN conjunct2, THEN conjunct2, THEN conjunct2, rule_format, OF i']
  obtain s where n': "as_number ([PyFloat 3] ! 0) = Some s"
    and v': "FinFrequency example_collaborators (zc_frequencyType example_curve) \<noteq> -1
       \<longrightarrow> (\<forall>v. np_power (1 + [- 3] ! 0
                     / FinFrequency example_collaborators (zc_frequencyType example_curve))
                 (- (FinFrequency example_collaborators (zc_frequencyType example_curve) * s))
                 = Finite v
               \<longrightarrow> example_negative_heap ! zc_values example_curve ! 0 = v)"
    by blast
  from n' have s': "s = 3"
    by simp
  have q': "np_power (1 + [- 3] ! 0
                     / FinFrequency example_collaborators (zc_frequencyType example_curve))
                 (- (FinFrequency example_collaborators (zc_frequencyType example_curve) * s))
                 = Finite (- 1 / 8)"
    unfolding s' f by (simp add: np_power_def)
  have r3: "example_negative_heap ! zc_values example_curve ! 0 = - 1 / 8"
    by (rule v' [rule_format, OF m q'])
  show ?thesis
    using example_construction b f p r1 r2 negative_base_construction b' p' r3
    by (intro conjI)
qed

text \<open>
  Claim C3. When the first time is a date and the construction succeeds, every time is
  a date, the stored time is the calendar offset \<open>(date - curveDate) / gDaysInYear\<close>, and
  the stored discount factor is \<open>exp (- r * t)\<close> on that offset when the frequency resolves
  to \<open>-1\<close> and the power \<open>(1 + r / freq)\<close> to the \<open>- (freq * alpha)\<close> otherwise, as \<^verbatim>\<open>np.power\<close>
  computes it, whenever that power is a finite float; \<open>alpha\<close> is the year fraction from
  the curve date to the date under the curve's day count. The source evaluates
  \<^verbatim>\<open>1.0 / np.power(1.0 + r/freq, freq * alpha)\<close>, which is that power.
\<close>

theorem date_mode_discount_factors:
  assumes "FinZeroCurve_init E h curveDate ts rs frequencyType dayCountType interpMethod
             = Inr (self, h')"
    and "isinstance_FinDate (ts ! 0)"
  shows "frequencyType = Member (zc_frequencyType self)
     \<and> dayCountType = Member (zc_dayCountType self)
     \<and> length (h' ! zc_times self) = length ts
     \<and> length (h' ! zc_values self) = length ts
     \<and> (\<forall>i < length ts. \<exists>d.
           ts ! i = PyDate d
           \<and> h' ! zc_times self ! i = date_sub d curveDate / gDaysInYear E
           \<and> 0 \<le> h' ! zc_times self ! i
           \<and> (FinFrequency E (zc_frequencyType self) = -1
                \<longrightarrow> h' ! zc_values self ! i = exp (- (rs ! i) * (h' ! zc_times self ! i)))
           \<and> (FinFrequency E (zc_frequencyType self) \<noteq> -1
                \<longrightarrow> (\<forall>v. np_power (1 + rs ! i / FinFrequency E (zc_frequencyType self))
                              (- (FinFrequency E (zc_frequencyType self)
                                   * yearFrac E (zc_dayCountType self) curveDate d)) = Finite v
                         \<longrightarrow> h' ! zc_values self ! i = v)))"
proof -
  let ?f = "FinFrequency E (zc_frequencyType self)"
  note stored = init_date_stored [OF assms]
  have "\<exists>d. ts ! i = PyDate d
          \<and> h' ! zc_times self ! i = date_sub d curveDate / gDaysInYear E
          \<and> 0 \<le> h' ! zc_times self ! i
          \<and> (?f = -1 \<longrightarrow> h' ! zc_values self ! i = exp (- (rs ! i) * (h' ! zc_times self ! i)))
          \<and> (?f \<noteq> -1
               \<longrightarrow> (\<forall>v. np_power (1 + rs ! i / ?f)
                             (- (?f * yearFrac E (zc_dayCountType self) curveDate d)) = Finite v
                        \<longrightarrow> h' ! zc_values self ! i = v))"
    if "i < length ts" for i
  proof -
    from stored that obtain d where d: "ts ! i = PyDate d"
      "h' ! zc_times self ! i = date_sub d curveDate / gDaysInYear E"
      "0 \<le> h' ! zc_times self ! i"
      and v: "h' ! zc_values self ! i =
         (if ?f = -1 then exp (- (rs ! i) * (h' ! zc_times self ! i))
          else stored_value
                 (np_power (1 + rs ! i / ?f)
                    (- (?f * yearFrac E (zc_dayCountType self) curveDate d))))"
      by blast
    have "?f = -1 \<longrightarrow> h' ! zc_values self ! i = exp (- (rs ! i) * (h' ! zc_times self ! i))"
      using v by simp
    moreover have "?f \<noteq> -1
               \<longrightarrow> (\<forall>v. np_power (1 + rs ! i / ?f)
                             (- (?f * yearFrac E (zc_dayCountType self) curveDate d)) = Finite v
                        \<longrightarrow> h' ! zc_values self ! i = v)"
      using v by simp
    ultimately show ?thesis
      using d by blast
  qed
  moreover from stored have "frequencyType = Member (zc_frequencyType self)"
    "dayCountType = Member (zc_dayCountType self)"
    "length (h' ! zc_times self) = length ts" "length (h' ! zc_values self) = length ts"
    by blast+
  ultimately show ?thesis
    by blast
qed

theorem date_mode_discount_factors_witness:
  "FinZeroCurve_init example_collaborators [] (FinDate 0)
     [PyDate (FinDate 365), PyDate (FinDate 730)] [1 / 50, 1 / 40]
     (Member SEMI_ANNUAL) (Member ACT_360) FLAT_FORWARDS
   = Inr (example_date_curve, example_date_heap)
   \<and> isinstance_FinDate ([PyDate (FinDate 365), PyDate (FinDate 730)] ! 0)
   \<and> example_date_heap ! zc_times example_date_curve ! 1 = 730 / 365
   \<and> yearFrac example_collaborators ACT_360 (FinDate 0) (FinDate 730) = 730 / 360
   \<and> np_power (1 + (1 / 40) / 2) (- (2 * (730 / 360)))
       = Finite ((1 + (1 / 40) / 2) powr (- (2 * (730 / 360))))
   \<and> example_date_heap ! zc_values example_date_curve ! 1
       = (1 + (1 / 40) / 2) powr (- (2 * (730 / 360)))
   \<and> FinZeroCurve_init example_collaborators [] (FinDate 0) [PyDate (FinDate 1095)] [- 3]
     (Member ANNUAL) (Member ACT_365F) FLAT_FORWARDS = Inr (example_curve, example_negative_heap)
   \<and> isinstance_FinDate ([PyDate (FinDate 1095)] ! 0)
   \<and> yearFrac example_collaborators ACT_365F (FinDate 0) (FinDate 1095) = 3
   \<and> np_power (1 + (- 3) / 1) (- (1 * 3)) = Finite (- 1 / 8)
   \<and> example_negative_heap ! zc_values example_curve ! 0 = - 1 / 8"
proof -
  have b: "isinstance_FinDate ([PyDate (FinDate 365), PyDate (FinDate 730)] ! 0)"
    by simp
  have f: "FinFrequency example_collaborators (zc_frequencyType example_date_curve) = 2"
    by (simp add: example_collaborators_def example_date_curve_def)
  have g: "gDaysInYear example_collaborators = 365"
    by (simp add: example_collaborators_def)
  have y: "yearFrac example_collaborators (zc_dayCountType example_date_curve) (FinDate 0)
      (FinDate 730) = 730 / 360"
    by (simp add: example_collaborators_def example_date_curve_def)
  have y': "yearFrac example_collaborators ACT_360 (FinDate 0) (FinDate 730) = 730 / 360"
    by (simp add: example_collaborators_def)
  have i: "1 < length [PyDate (FinDate 365), PyDate (FinDate 730)]"
    by simp
  have p: "np_power (1 + (1 / 40) / 2) (- (2 * (730 / 360)))
       = Finite ((1 + (1 / 40) / 2) powr (- (2 * (730 / 360))))"
    by (simp add: np_power_def)
  from date_mode_discount_factors [OF example_date_construction b,
      THEN conjunct2, THEN conjunct2, THEN conjunct2, THEN conjunct2, rule_format, OF i]
  obtain d where d: "[PyDate (FinDate 365), PyDate (FinDate 730)] ! 1 = PyDate d"
    and t: "example_date_heap ! zc_times example_date_curve ! 1
              = date_sub d (FinDate 0) / gDaysInYear example_collaborators"
    and v: "FinFrequency example_collaborators (zc_frequencyType example_date_curve) \<noteq> -1
       \<longrightarrow> (\<forall>v. np_power (1 + [1 / 50, 1 / 40] ! 1
                       / FinFrequency example_collaborators (zc_frequencyType example_date_curve))
                 (- (FinFrequency example_collaborators (zc_frequencyType example_date_curve)
                      * yearFrac example_collaborators
                          (zc_dayCountType example_date_curve) (FinDate 0) d)) = Finite v
               \<longrightarrow> example_date_heap ! zc_values example_date_curve ! 1 = v)"
    by blast
  from d have d': "d = FinDate 730"
    by simp
  have r1: "example_date_heap ! zc_times example_date_curve ! 1 = 730 / 365"
    using t g unfolding d' by simp
  have m: "FinFrequency example_collaborators (zc_frequencyType example_date_curve) \<noteq> -1"
    using f by simp
  have q: "np_power (1 + [1 / 50, 1 / 40] ! 1
                       / FinFrequency example_collaborators (zc_frequencyType example_date_curve))
                 (- (FinFrequency example_collaborators (zc_frequencyType example_date_curve)
                      * yearFrac example_collaborators
                          (zc_dayCountType example_date_curve) (FinDate 0) d))
             = Finite ((1 + (1 / 40) / 2) powr (- (2 * (730 / 360))))"
    unfolding d' f y by (simp add: np_power_def)
  have r2: "example_date_heap ! zc_values example_date_curve ! 1
       = (1 + (1 / 40) / 2) powr (- (2 * (730 / 360)))"
    by (rule v [rule_format, OF m q])
  have b': "isinstance_FinDate ([PyDate (FinDate 1095)] ! 0)"
    by simp
  have f': "FinFrequency example_collaborators (zc_frequencyType example_curve) = 1"
    by (simp add: example_collaborators_def example_curve_def)
  have z: "yearFrac example_collaborators (zc_dayCountType example_curve) (FinDate 0)
      (FinDate 1095) = 3"
    by (simp add: example_collaborators_def example_curve_def)
  have z': "yearFrac example_collaborators ACT_365F (FinDate 0) (FinDate 1095) = 3"
    by (simp add: example_collaborators_def)
  have i': "0 < length [PyDate (FinDate 1095)]"
    by simp
  have p': "np_power (1 + (- 3) / 1) (- (1 * 3)) = Finite (- 1 / 8)"
    by (simp add: np_power_def)
  from date_mode_discount_factors [OF negative_base_date_construction b',
      THEN conjunct2, THEN conjunct2, THEN conjunct2, THEN conjunct2, rule_format, OF i']
  obtain e where e: "[PyDate (FinDate 1095)] ! 0 = PyDate e"
    and v': "FinFrequency example_collaborators (zc_frequencyType example_curve) \<noteq> -1
       \<longrightarrow> (\<forall>v. np_power (1 + [- 3] ! 0
                       / FinFrequency example_collaborators (zc_frequencyType example_curve))
                 (- (FinFrequency example_collaborators (zc_frequencyType example_curve)
                      * yearFrac example_collaborators
                          (zc_dayCountType example_curve) (FinDate 0) e)) = Finite v
               \<longrightarrow> example_negative_heap ! zc_values example_curve ! 0 = v)"
    by blast
  from e have e': "e = FinDate 1095"
    by simp
  have q': "np_power (1 + [- 3] ! 0
                       / FinFrequency example_collaborators (zc_frequencyType example_curve))
                 (- (FinFrequency example_collaborators (zc_frequencyType example_curve)
                      * yearFrac example_collaborators
                          (zc_dayCountType example_curve) (FinDate 0) e))
             = Finite (- 1 / 8)"
    unfolding e' f' z by (simp add: np_power_def)
  have m': "FinFrequency example_collaborators (zc_frequencyType example_curve) \<noteq> -1"
    using f' by simp
  have r3: "example_negative_heap ! zc_values example_curve ! 0 = - 1 / 8"
    by (rule v' [rule_format, OF m' q'])
  show ?thesis
    using example_date_construction b r1 y' p r2 negative_base_date_construction b' z' p' r3
    by (intro conjI)
qed

text \<open>
  Claim C10. The constructor raises the unsupported-input error exactly when its four
  argument checks pass and the first time is neither a float nor a date. Only the first
  time is inspected: an int in first place is rejected although it is a valid offset, and
  the times after the first one take no part in the decision.
\<close>

theorem unsupported_input_iff:
  "FinZeroCurve_init E h curveDate ts rs frequencyType dayCountType interpMethod
     = Inl UnsupportedInputType
   \<longleftrightarrow> (ts \<noteq> [] \<and> length ts = length rs \<and> frequencyType \<noteq> NonMember
        \<and> dayCountType \<noteq> NonMember
        \<and> \<not> isinstance_float (ts ! 0) \<and> \<not> isinstance_FinDate (ts ! 0))"
proof -
  have fl: "quote_loop (float_quote freq) qs [] [] \<noteq> Inl UnsupportedInputType" for freq qs
    by (rule quote_loop_not_unsupported) (rule float_quote_Inl)
  have dl: "quote_loop (date_quote E curveDate dct freq) qs [] [] \<noteq> Inl UnsupportedInputType"
    for dct freq qs
    by (rule quote_loop_not_unsupported) (rule date_quote_Inl)
  have names: "EmptyInput \<noteq> UnsupportedInputType" "LengthMismatch \<noteq> UnsupportedInputType"
    "UnknownFrequency \<noteq> UnsupportedInputType" "UnknownDayCount \<noteq> UnsupportedInputType"
    "NotMonotonic \<noteq> UnsupportedInputType"
    by (simp_all add: EmptyInput_def LengthMismatch_def UnknownFrequency_def
        UnknownDayCount_def NotMonotonic_def UnsupportedInputType_def)
  show ?thesis
    using fl dl names
    by (auto simp add: FinZeroCurve_init_def np_array_def Let_def
        split: enum_arg.splits sum.splits prod.splits if_splits)
qed

theorem unsupported_input_iff_witness:
  "FinZeroCurve_init example_collaborators [] (FinDate 0) [PyInt 1, PyFloat 2] [1 / 50, 1 / 40]
     (Member ANNUAL) (Member ACT_365F) FLAT_FORWARDS = Inl UnsupportedInputType
   \<and> FinZeroCurve_init example_collaborators [] (FinDate 0) [PyFloat 1, PyInt 2] [1 / 50, 1 / 40]
     (Member ANNUAL) (Member ACT_365F) FLAT_FORWARDS = Inr (example_curve, example_heap)"
  using unsupported_input_iff [of example_collaborators "[]" "FinDate 0" "[PyInt 1, PyFloat 2]"
      "[1 / 50, 1 / 40]" "Member ANNUAL" "Member ACT_365F" FLAT_FORWARDS]
    int_tail_accepted
  by simp

text \<open>
  Claim C4, as amended. The claim is that the constructor raises exactly when one of the
  seven named conditions holds. That fails for a quote list that mixes kinds and for a
  frequency that resolves to \<open>0\<close> (see the counterexample below). For a uniform quote
  list, a frequency that does not resolve to \<open>0\<close> and a nonzero \<^verbatim>\<open>gDaysInYear\<close>, the
  constructor raises exactly when one of the seven conditions holds, and the error it
  raises is one of the seven named ones.
\<close>

theorem construction_fails_iff_named_condition:
  assumes "uniform_quotes ts"
    and "\<forall>ft. frequencyType = Member ft \<longrightarrow> FinFrequency E ft \<noteq> 0"
    and "gDaysInYear E \<noteq> 0"
  shows "(isl (FinZeroCurve_init E h curveDate ts rs frequencyType dayCountType interpMethod)
            \<longleftrightarrow> named_failure_condition E curveDate ts rs frequencyType dayCountType)
     \<and> (\<forall>e. FinZeroCurve_init E h curveDate ts rs frequencyType dayCountType interpMethod = Inl e
            \<longrightarrow> e \<in> {EmptyInput, LengthMismatch, UnknownFrequency, UnknownDayCount,
                     NegativeTime, UnsupportedInputType, NotMonotonic})"
proof -
  let ?init = "FinZeroCurve_init E h curveDate ts rs frequencyType dayCountType interpMethod"
  let ?cond = "named_failure_condition E curveDate ts rs frequencyType dayCountType"
  let ?named = "{EmptyInput, LengthMismatch, UnknownFrequency, UnknownDayCount,
                 NegativeTime, UnsupportedInputType, NotMonotonic}"
  let ?neg = "\<exists>x \<in> set ts. \<exists>t. resolved_offset E curveDate x = Some t \<and> t < 0"
  let ?rts = "List.map_filter (resolved_offset E curveDate) ts"
  consider (empty) "ts = []"
    | (mismatch) "ts \<noteq> []" "length ts \<noteq> length rs"
    | (freq) "ts \<noteq> []" "length ts = length rs" "frequencyType = NonMember"
    | (dc) ft where "ts \<noteq> []" "length ts = length rs" "frequencyType = Member ft"
        "dayCountType = NonMember"
    | (run) ft dct where "ts \<noteq> []" "length ts = length rs" "frequencyType = Member ft"
        "dayCountType = Member dct"
    by (cases frequencyType; cases dayCountType) auto
  then show ?thesis
  proof cases
    case empty
    then show ?thesis
      by (simp add: FinZeroCurve_init_def named_failure_condition_def)
  next
    case mismatch
    then show ?thesis
      by (simp add: FinZeroCurve_init_def named_failure_condition_def)
  next
    case freq
    then show ?thesis
      by (simp add: FinZeroCurve_init_def named_failure_condition_def)
  next
    case dc
    then show ?thesis
      by (simp add: FinZeroCurve_init_def named_failure_condition_def)
  next
    case run
    from run(1) obtain x xs where ts: "ts = x # xs"
      by (cases ts) auto
    have f0: "FinFrequency E ft \<noteq> 0"
      using assms(2) run(3) by simp
    have cond: "?cond \<longleftrightarrow>
        ?neg \<or> (\<not> isinstance_float x \<and> \<not> isinstance_FinDate x) \<or> \<not> sorted ?rts"
      using run ts by (simp add: named_failure_condition_def negative_offset_iff)
    have init: "?init =
       (case (if isinstance_float x then
                quote_loop (float_quote (FinFrequency E ft)) (zip ts rs) [] []
              else if isinstance_FinDate x then
                quote_loop (date_quote E curveDate dct (FinFrequency E ft)) (zip ts rs) [] []
              else Inl UnsupportedInputType) of
          Inl e \<Rightarrow> Inl e
        | Inr (tsr, vs) \<Rightarrow>
            if \<not> sorted tsr then Inl NotMonotonic
            else Inr (\<lparr>zc_curveDate = curveDate, zc_times = length h,
                       zc_values = Suc (length h), zc_dayCountType = dct,
                       zc_frequencyType = ft, zc_interpMethod = interpMethod\<rparr>,
                      h @ [tsr, vs]))"
      using init_members [OF run(1,2), of E h curveDate ft dct interpMethod] run(3,4) ts
      by simp
    consider (float) "isinstance_float x"
      | (date) "\<not> isinstance_float x" "isinstance_FinDate x"
      | (other) "\<not> isinstance_float x" "\<not> isinstance_FinDate x"
      by blast
    then show ?thesis
    proof cases
      case float
      then have "list_all (\<lambda>y. as_number y \<noteq> None) ts"
        using assms(1) ts by (simp add: uniform_quotes_def)
      note loop = float_loop_uniform [OF run(2) this f0, of E curveDate]
      show ?thesis
      proof (cases ?neg)
        case True
        with loop have "quote_loop (float_quote (FinFrequency E ft)) (zip ts rs) [] []
            = Inl NegativeTime"
          by blast
        then show ?thesis
          unfolding cond init using float True by simp
      next
        case False
        with loop obtain vs where "quote_loop (float_quote (FinFrequency E ft)) (zip ts rs) [] []
            = Inr (?rts, vs)"
          by blast
        then show ?thesis
          unfolding cond init using float False by simp
      qed
    next
      case date
      then have "list_all isinstance_FinDate ts"
        using assms(1) ts by (simp add: uniform_quotes_def)
      note loop = date_loop_uniform [OF run(2) this f0 assms(3), of curveDate dct]
      show ?thesis
      proof (cases ?neg)
        case True
        with loop have "quote_loop (date_quote E curveDate dct (FinFrequency E ft)) (zip ts rs)
            [] [] = Inl NegativeTime"
          by blast
        then show ?thesis
          unfolding cond init using date True by simp
      next
        case False
        with loop obtain vs where "quote_loop (date_quote E curveDate dct (FinFrequency E ft))
            (zip ts rs) [] [] = Inr (?rts, vs)"
          by blast
        then show ?thesis
          unfolding cond init using date False by simp
      qed
    next
      case other
      then show ?thesis
        unfolding cond init by simp
    qed
  qed
qed

theorem construction_fails_iff_named_condition_witness:
  "uniform_quotes [PyFloat 2, PyFloat 1]
   \<and> FinFrequency example_collaborators ANNUAL \<noteq> 0
   \<and> gDaysInYear example_collaborators \<noteq> 0
   \<and> named_failure_condition example_collaborators (FinDate 0) [PyFloat 2, PyFloat 1]
        [1 / 50, 1 / 40] (Member ANNUAL) (Member ACT_365F)
   \<and> isl (FinZeroCurve_init example_collaborators [] (FinDate 0) [PyFloat 2, PyFloat 1]
        [1 / 50, 1 / 40] (Member ANNUAL) (Member ACT_365F) FLAT_FORWARDS)
   \<and> uniform_quotes [PyFloat 1, PyFloat 2]
   \<and> \<not> named_failure_condition example_collaborators (FinDate 0) [PyFloat 1, PyFloat 2]
        [1 / 50, 1 / 40] (Member ANNUAL) (Member ACT_365F)
   \<and> \<not> isl (FinZeroCurve_init example_collaborators [] (FinDate 0) [PyFloat 1, PyFloat 2]
        [1 / 50, 1 / 40] (Member ANNUAL) (Member ACT_365F) FLAT_FORWARDS)"
proof -
  have u1: "uniform_quotes [PyFloat 2, PyFloat 1]" and u2: "uniform_quotes [PyFloat 1, PyFloat 2]"
    by (simp_all add: uniform_quotes_def)
  have f: "\<forall>ft. Member ANNUAL = Member ft \<longrightarrow> FinFrequency example_collaborators ft \<noteq> 0"
    by (simp add: example_collaborators_def)
  have g: "gDaysInYear example_collaborators \<noteq> 0"
    by (simp add: example_collaborators_def)
  have c1: "named_failure_condition example_collaborators (FinDate 0) [PyFloat 2, PyFloat 1]
        [1 / 50, 1 / 40] (Member ANNUAL) (Member ACT_365F)"
    by (simp add: named_failure_condition_def negative_offset_def resolved_offset_def
        List.map_filter_simps)
  have c2: "\<not> named_failure_condition example_collaborators (FinDate 0) [PyFloat 1, PyFloat 2]
        [1 / 50, 1 / 40] (Member ANNUAL) (Member ACT_365F)"
    by (simp add: named_failure_condition_def negative_offset_def resolved_offset_def
        List.map_filter_simps)
  show ?thesis
    using u1 u2 f g c1 c2
      construction_fails_iff_named_condition [OF u1 f g, of "[]" "FinDate 0" "[1 / 50, 1 / 40]"
        "Member ACT_365F" FLAT_FORWARDS]
      construction_fails_iff_named_condition [OF u2 f g, of "[]" "FinDate 0" "[1 / 50, 1 / 40]"
        "Member ACT_365F" FLAT_FORWARDS]
    by simp
qed

text \<open>
  Counterexample to claim C4 as stated. With a date after a float the comparison
  \<^verbatim>\<open>t < 0.0\<close> of the float branch fails on the date, and with the simple frequency the
  division \<^verbatim>\<open>r/freq\<close> raises \<^verbatim>\<open>ZeroDivisionError\<close>: the construction raises although none
  of the seven named conditions holds.
\<close>

theorem construction_fails_outside_named_conditions:
  "FinZeroCurve_init example_collaborators [] (FinDate 0) [PyFloat 1, PyDate (FinDate 730)]
     [1 / 50, 1 / 40] (Member ANNUAL) (Member ACT_365F) FLAT_FORWARDS = Inl TypeError
   \<and> \<not> named_failure_condition example_collaborators (FinDate 0)
        [PyFloat 1, PyDate (FinDate 730)] [1 / 50, 1 / 40] (Member ANNUAL) (Member ACT_365F)
   \<and> FinZeroCurve_init example_collaborators [] (FinDate 0) [PyFloat 1, PyFloat 2]
     [1 / 50, 1 / 40] (Member SIMPLE) (Member ACT_365F) FLAT_FORWARDS = Inl ZeroDivisionError
   \<and> \<not> named_failure_condition example_collaborators (FinDate 0)
        [PyFloat 1, PyFloat 2] [1 / 50, 1 / 40] (Member SIMPLE) (Member ACT_365F)"
proof -
  have "FinZeroCurve_init example_collaborators [] (FinDate 0) [PyFloat 1, PyDate (FinDate 730)]
     [1 / 50, 1 / 40] (Member ANNUAL) (Member ACT_365F) FLAT_FORWARDS = Inl TypeError"
    by (simp add: FinZeroCurve_init_def example_collaborators_def float_quote_def)
  moreover have "\<not> named_failure_condition example_collaborators (FinDate 0)
        [PyFloat 1, PyDate (FinDate 730)] [1 / 50, 1 / 40] (Member ANNUAL) (Member ACT_365F)"
    by (simp add: named_failure_condition_def negative_offset_def resolved_offset_def
        List.map_filter_simps example_collaborators_def)
  moreover have "FinZeroCurve_init example_collaborators [] (FinDate 0) [PyFloat 1, PyFloat 2]
     [1 / 50, 1 / 40] (Member SIMPLE) (Member ACT_365F) FLAT_FORWARDS = Inl ZeroDivisionError"
    by (simp add: FinZeroCurve_init_def example_collaborators_def float_quote_def)
  moreover have "\<not> named_failure_condition example_collaborators (FinDate 0)
        [PyFloat 1, PyFloat 2] [1 / 50, 1 / 40] (Member SIMPLE) (Member ACT_365F)"
    by (simp add: named_failure_condition_def negative_offset_def resolved_offset_def
        List.map_filter_simps)
  ultimately show ?thesis by blast
qed

section \<open>Round trip: the claim\<close>

text \<open>
  Claim C6, as amended. For a curve built from float offsets, a grid index \<open>i\<close> with a
  positive time \<open>t\<close> and a compounding frequency that resolves to the frequency of the
  construction, \<^verbatim>\<open>zeroRate(t, f)\<close> returns the input rate \<open>rs ! i\<close>, when the time resolution
  maps the float \<open>t\<close> to itself, the interpolation returns the stored value at that node
  and, for a periodic frequency, the compounding base \<open>1 + r / freq\<close> is positive. In the
  reals the rate is recovered exactly.
\<close>

theorem zeroRate_round_trip:
  assumes "FinZeroCurve_init E h curveDate ts rs frequencyType dayCountType interpMethod
             = Inr (self, h')"
    and "isinstance_float (ts ! 0)"
    and "i < length ts"
    and "as_number (ts ! i) = Some t"
    and "0 < t"
    and "inputTime E (PyFloat t) self = Inr t"
    and "inputFrequency E compoundingFreq = Inr (FinFrequency E (zc_frequencyType self))"
    and "interpolate E t (h' ! zc_times self) (h' ! zc_values self) (zc_interpMethod self)
           = h' ! zc_values self ! i"
    and "FinFrequency E (zc_frequencyType self) \<noteq> - 1
           \<longrightarrow> 0 < 1 + rs ! i / FinFrequency E (zc_frequencyType self)"
  shows "h' ! zc_times self ! i = t
     \<and> zeroRate E h' self (PyFloat t) compoundingFreq = Inr (rs ! i)"
proof -
  let ?f = "FinFrequency E (zc_frequencyType self)"
  note stored = init_float_stored [OF assms(1,2)]
  from stored have f0: "?f \<noteq> 0"
    by blast
  from stored [THEN conjunct2, THEN conjunct2, THEN conjunct2, THEN conjunct2, rule_format,
      OF assms(3)] assms(4)
  have st: "h' ! zc_times self ! i = t"
    and v: "h' ! zc_values self ! i =
       (if ?f = - 1 then exp (- (rs ! i) * t)
        else stored_value (np_power (1 + rs ! i / ?f) (- (?f * t))))"
    by auto
  have d: "df E h' self (PyFloat t) = Inr (h' ! zc_values self ! i)"
    using assms(6,8) by (simp add: df_def)
  have t0: "t \<noteq> 0"
    using assms(5) by simp
  have "zeroRate_branches (h' ! zc_values self ! i) t ?f = Inr (rs ! i)"
  proof (cases "?f = - 1")
    case True
    with v zeroRate_branches_continuous [OF t0, of "rs ! i"] show ?thesis by simp
  next
    case False
    with assms(9) have pos: "0 < 1 + rs ! i / ?f" by simp
    from v False have "h' ! zc_values self ! i = (1 + rs ! i / ?f) powr (- (?f * t))"
      by (simp add: np_power_pos [OF pos])
    with zeroRate_branches_periodic [OF t0 f0 False pos] show ?thesis by simp
  qed
  with d assms(6,7) st show ?thesis
    by (simp add: zeroRate_def)
qed

theorem zeroRate_round_trip_witness:
  "FinZeroCurve_init example_collaborators [] (FinDate 0) [PyFloat 1, PyFloat 2] [1 / 50, 1 / 40]
     (Member ANNUAL) (Member ACT_365F) FLAT_FORWARDS = Inr (example_curve, example_heap)
   \<and> as_number ([PyFloat 1, PyFloat 2] ! 1) = Some 2
   \<and> inputTime example_collaborators (PyFloat 2) example_curve = Inr 2
   \<and> inputFrequency example_collaborators 1
       = Inr (FinFrequency example_collaborators (zc_frequencyType example_curve))
   \<and> 0 < 1 + [1 / 50, 1 / 40] ! 1
             / FinFrequency example_collaborators (zc_frequencyType example_curve)
   \<and> example_heap ! zc_times example_curve ! 1 = 2
   \<and> zeroRate example_collaborators example_heap example_curve (PyFloat 2) 1 = Inr (1 / 40)"
proof -
  have b: "isinstance_float ([PyFloat 1, PyFloat 2] ! 0)"
    by simp
  have i: "1 < length [PyFloat 1, PyFloat 2]"
    by simp
  have n: "as_number ([PyFloat 1, PyFloat 2] ! 1) = Some 2"
    by simp
  have p: "(0::real) < 2"
    by simp
  have it: "inputTime example_collaborators (PyFloat 2) example_curve = Inr 2"
    by (simp add: example_collaborators_def resolve_time_def)
  have fr: "inputFrequency example_collaborators 1
       = Inr (FinFrequency example_collaborators (zc_frequencyType example_curve))"
    by (simp add: example_collaborators_def resolve_frequency_def example_curve_def)
  have base: "0 < 1 + [1 / 50, 1 / 40] ! 1
             / FinFrequency example_collaborators (zc_frequencyType example_curve)"
    by (simp add: example_collaborators_def example_curve_def)
  then have base': "FinFrequency example_collaborators (zc_frequencyType example_curve) \<noteq> - 1
     \<longrightarrow> 0 < 1 + [1 / 50, 1 / 40] ! 1
             / FinFrequency example_collaborators (zc_frequencyType example_curve)"
    by simp
  from zeroRate_round_trip [OF example_construction b i n p it fr example_df_2 base']
  show ?thesis
    using example_construction n it fr base by simp
qed

text \<open>
  Counterexample to claim C6 as stated. The annually compounded rate \<open>-3\<close> at the offset
  \<open>2\<close> has the compounding base \<open>-2\<close> and the stored discount factor \<open>1 / (-2)\<^sup>2 = 1 / 4\<close>.
  The time resolution maps the offset to itself, the frequency is the one of the
  construction and the interpolation returns the stored value, yet \<^verbatim>\<open>zeroRate\<close> returns
  \<open>(1 / 4) powr (- 1 / 2) - 1 = 1\<close>, not the rate \<open>-3\<close>.
\<close>

theorem zeroRate_round_trip_fails_on_negative_base:
  "FinZeroCurve_init example_collaborators [] (FinDate 0) [PyFloat 2] [- 3]
     (Member ANNUAL) (Member ACT_365F) FLAT_FORWARDS = Inr (example_curve, example_even_heap)
   \<and> isinstance_float ([PyFloat 2] ! 0)
   \<and> as_number ([PyFloat 2] ! 0) = Some 2
   \<and> inputTime example_collaborators (PyFloat 2) example_curve = Inr 2
   \<and> inputFrequency example_collaborators 1
       = Inr (FinFrequency example_collaborators (zc_frequencyType example_curve))
   \<and> interpolate example_collaborators 2 (example_even_heap ! zc_times example_curve)
       (example_even_heap ! zc_values example_curve) (zc_interpMethod example_curve)
       = example_even_heap ! zc_values example_curve ! 0
   \<and> [- 3] ! 0 = (- 3 :: real)
   \<and> zeroRate example_collaborators example_even_heap example_curve (PyFloat 2) 1 = Inr 1"
proof -
  have "inputTime example_collaborators (PyFloat 2) example_curve = Inr 2"
    by (simp add: example_collaborators_def resolve_time_def)
  moreover have "inputFrequency example_collaborators 1
       = Inr (FinFrequency example_collaborators (zc_frequencyType example_curve))"
    by (simp add: example_collaborators_def resolve_frequency_def example_curve_def)
  moreover have "interpolate example_collaborators 2 (example_even_heap ! zc_times example_curve)
       (example_even_heap ! zc_values example_curve) (zc_interpMethod example_curve)
       = example_even_heap ! zc_values example_curve ! 0"
    by (simp add: example_collaborators_def example_curve_def example_even_heap_def)
  moreover have "zeroRate example_collaborators example_even_heap example_curve (PyFloat 2) 1
      = Inr 1"
    by (simp add: zeroRate_def df_def example_collaborators_def resolve_time_def
        resolve_frequency_def example_curve_def zeroRate_branches_def zeroRate_periodic_def
        py_div_def py_pow_def quarter_powr example_even_heap_def)
  ultimately show ?thesis
    using negative_base_even_construction by simp
qed

section \<open>Bump: the claims\<close>

text \<open>
  Claim C2, as amended. The claim is that \<^verbatim>\<open>bump\<close> returns a new \<^verbatim>\<open>FinZeroCurve\<close>; the
  source returns an instance of \<^verbatim>\<open>FinDiscountCurve\<close> (see the counterexample below). On
  every valid curve, hence on every constructed one, \<^verbatim>\<open>bump(b)\<close> raises nothing and
  returns a discount curve with the anchor date and the interpolation method of the
  source, whose time grid equals the source's and whose discount factor at each index
  \<open>i\<close> is \<open>values ! i * exp (- b * times ! i)\<close>. Its two arrays are new: they were not in
  the store before the call, and they are two different arrays.
\<close>

theorem bump_returns_scaled_discount_curve:
  assumes "valid_curve h self"
  shows "\<exists>dc h'. bump h self bumpSize = Inr (DiscountCurveObject dc, h')
     \<and> dc_curveDate dc = zc_curveDate self
     \<and> dc_interpMethod dc = zc_interpMethod self
     \<and> h' ! dc_times dc = h ! zc_times self
     \<and> length (h' ! dc_values dc) = length (h ! zc_values self)
     \<and> (\<forall>i < length (h ! zc_values self).
           h' ! dc_values dc ! i
             = h ! zc_values self ! i * exp (- bumpSize * (h ! zc_times self ! i)))
     \<and> length h \<le> dc_times dc \<and> length h \<le> dc_values dc \<and> dc_times dc \<noteq> dc_values dc"
proof -
  from assms have "length (h ! zc_times self) = length (h ! zc_values self)"
    by (simp add: valid_curve_def)
  then show ?thesis
    unfolding bump_result [OF assms] by (simp add: nth_append)
qed

theorem bump_returns_scaled_discount_curve_witness:
  "FinZeroCurve_init example_collaborators [] (FinDate 0) [PyFloat 1, PyFloat 2] [1 / 50, 1 / 40]
     (Member ANNUAL) (Member ACT_365F) FLAT_FORWARDS = Inr (example_curve, example_heap)
   \<and> valid_curve example_heap example_curve
   \<and> (\<exists>dc h'. bump example_heap example_curve (1 / 100) = Inr (DiscountCurveObject dc, h')
        \<and> dc_curveDate dc = FinDate 0
        \<and> dc_interpMethod dc = FLAT_FORWARDS
        \<and> h' ! dc_times dc = [1, 2]
        \<and> h' ! dc_values dc ! 1 = 1600 / 1681 * exp (- (1 / 100) * 2))"
proof -
  from bump_returns_scaled_discount_curve [OF example_valid, of "1 / 100"]
  obtain dc h' where r: "bump example_heap example_curve (1 / 100)
        = Inr (DiscountCurveObject dc, h')"
    "dc_curveDate dc = zc_curveDate example_curve"
    "dc_interpMethod dc = zc_interpMethod example_curve"
    "h' ! dc_times dc = example_heap ! zc_times example_curve"
    "\<forall>i < length (example_heap ! zc_values example_curve).
           h' ! dc_values dc ! i
             = example_heap ! zc_values example_curve ! i
                 * exp (- (1 / 100) * (example_heap ! zc_times example_curve ! i))"
    by blast
  have "1 < length (example_heap ! zc_values example_curve)"
    by (simp add: example_heap_def example_curve_def)
  with r(5) have "h' ! dc_values dc ! 1
             = example_heap ! zc_values example_curve ! 1
                 * exp (- (1 / 100) * (example_heap ! zc_times example_curve ! 1))"
    by blast
  then have "h' ! dc_values dc ! 1 = 1600 / 1681 * exp (- (1 / 100) * 2)"
    by (simp add: example_heap_def example_curve_def)
  moreover have "dc_curveDate dc = FinDate 0" "dc_interpMethod dc = FLAT_FORWARDS"
    "h' ! dc_times dc = [1, 2]"
    using r(2,3,4) by (simp_all add: example_heap_def example_curve_def)
  ultimately show ?thesis
    using example_construction example_valid r(1) by blast
qed

text \<open>
  Counterexample to claim C2 as stated: on the constructed example curve \<^verbatim>\<open>bump\<close> does
  not return an instance of \<^verbatim>\<open>FinZeroCurve\<close>.
\<close>

theorem bump_does_not_return_zero_curve:
  "FinZeroCurve_init example_collaborators [] (FinDate 0) [PyFloat 1, PyFloat 2] [1 / 50, 1 / 40]
     (Member ANNUAL) (Member ACT_365F) FLAT_FORWARDS = Inr (example_curve, example_heap)
   \<and> \<not> returns_FinZeroCurve (bump example_heap example_curve (1 / 100))"
  using example_construction
  by (simp add: bump_result [OF example_valid] returns_FinZeroCurve_def)

text \<open>
  Claim C8. \<^verbatim>\<open>bump\<close> leaves the source curve unchanged. It assigns to no attribute of
  \<^verbatim>\<open>self\<close>, so the anchor date, the two selectors, the method and the two references
  are the ones before the call; what the call could change are the arrays. After the
  call every array that was in the store is what it was, the arrays of the source in
  particular, the source is still a valid curve, and neither array of the new curve is
  an array of the source.
\<close>

theorem bump_leaves_source_unchanged:
  assumes "valid_curve h self"
  shows "\<exists>dc h'. bump h self bumpSize = Inr (DiscountCurveObject dc, h')
     \<and> take (length h) h' = h
     \<and> h' ! zc_times self = h ! zc_times self
     \<and> h' ! zc_values self = h ! zc_values self
     \<and> valid_curve h' self
     \<and> dc_times dc \<notin> {zc_times self, zc_values self}
     \<and> dc_values dc \<notin> {zc_times self, zc_values self}"
proof -
  from assms have "zc_times self < length h" "zc_values self < length h"
    "length (h ! zc_times self) = length (h ! zc_values self)"
    by (simp_all add: valid_curve_def)
  then show ?thesis
    unfolding bump_result [OF assms] by (auto simp add: nth_append valid_curve_def)
qed

theorem bump_leaves_source_unchanged_witness:
  "FinZeroCurve_init example_collaborators [] (FinDate 0) [PyFloat 1, PyFloat 2] [1 / 50, 1 / 40]
     (Member ANNUAL) (Member ACT_365F) FLAT_FORWARDS = Inr (example_curve, example_heap)
   \<and> valid_curve example_heap example_curve
   \<and> (\<exists>dc h'. bump example_heap example_curve (1 / 100) = Inr (DiscountCurveObject dc, h')
        \<and> take 2 h' = [[1, 2], [50 / 51, 1600 / 1681]]
        \<and> dc_times dc \<notin> {0, 1} \<and> dc_values dc \<notin> {0, 1})"
proof -
  from bump_leaves_source_unchanged [OF example_valid, of "1 / 100"]
  obtain dc h' where r: "bump example_heap example_curve (1 / 100)
        = Inr (DiscountCurveObject dc, h')"
    "take (length example_heap) h' = example_heap"
    "dc_times dc \<notin> {zc_times example_curve, zc_values example_curve}"
    "dc_values dc \<notin> {zc_times example_curve, zc_values example_curve}"
    by blast
  have "take 2 h' = [[1, 2], [50 / 51, 1600 / 1681]]"
    using r(2) by (simp add: example_heap_def numeral_2_eq_2)
  moreover have "dc_times dc \<notin> {0, 1}" "dc_values dc \<notin> {0, 1}"
    using r(3,4) by (simp_all add: example_curve_def)
  ultimately show ?thesis
    using example_construction example_valid r(1) by blast
qed

end
